theory Spec2Isabelle
  imports Complex_Main "HOL-Library.Multiset"
begin

section \<open>Arrays\<close>

text \<open>
  The scripts compute on numpy arrays and torch tensors of floating-point numbers. The
  model takes the numbers as reals: a two-dimensional array is the list of its rows, a
  one-dimensional array a list. Rounding, \<open>nan\<close> and \<open>inf\<close> are outside the model: a
  quotient by zero is 0 in HOL where numpy gives \<open>nan\<close> or \<open>inf\<close>, which can only
  happen for an array with no sample, no subject or no channel, or for a single sample
  in the correlation, whose theorem takes two samples or more.

  A numpy array is rectangular by construction; \<open>rect c X\<close> says so of a list of rows.
  A list of rows cannot tell the width of an array with no row, so \<open>ncols\<close> of an empty
  list is 0 and the theorems about shapes take at least one row.
\<close>

type_synonym vec = "real list"
type_synonym mat = "real list list"

datatype ndarray = Arr0 real | Arr1 vec | Arr2 mat

datatype py_error =
  ValueError | TypeError | IndexError | RuntimeError | UnboundLocalError | LinAlgError

definition ncols :: "'a list list \<Rightarrow> nat" where
  "ncols X = (case X of [] \<Rightarrow> 0 | r # _ \<Rightarrow> length r)"

definition rect :: "nat \<Rightarrow> 'a list list \<Rightarrow> bool" where
  "rect c X = list_all (\<lambda>r. length r = c) X"

definition col :: "mat \<Rightarrow> nat \<Rightarrow> vec" where
  "col X j = map (\<lambda>r. r ! j) X"

definition dot :: "vec \<Rightarrow> vec \<Rightarrow> real" where
  "dot u v = sum_list (map2 (*) u v)"

text \<open>\<open>X.t()\<close>, and \<open>torch.matmul\<close>, which raises unless the inner dimensions agree.\<close>

definition t_mat :: "mat \<Rightarrow> mat" where
  "t_mat X = map (col X) [0..<ncols X]"

definition mm :: "mat \<Rightarrow> mat \<Rightarrow> mat" where
  "mm A B = map (\<lambda>r. map (\<lambda>j. dot r (col B j)) [0..<ncols B]) A"

definition matmul :: "mat \<Rightarrow> mat \<Rightarrow> py_error + mat" where
  "matmul A B =
     (if list_all (\<lambda>r. length r = length B) A then Inr (mm A B) else Inl RuntimeError)"

text \<open>\<open>np.eye(n)\<close>, \<open>np.zeros((r, c))\<close>, and an array times a scalar.\<close>

definition eye :: "nat \<Rightarrow> mat" where
  "eye n = map (\<lambda>i. map (\<lambda>j. if i = j then 1 else 0) [0..<n]) [0..<n]"

definition zeros :: "nat \<Rightarrow> nat \<Rightarrow> mat" where
  "zeros r c = replicate r (replicate c 0)"

definition scale_mat :: "mat \<Rightarrow> real \<Rightarrow> mat" where
  "scale_mat M s = map (map (\<lambda>v. v * s)) M"

text \<open>Sums along the sample axis (\<open>axis=0\<close>, one value per column) and over all cells.\<close>

definition sum_axis0 :: "mat \<Rightarrow> vec" where
  "sum_axis0 M = map (\<lambda>j. sum_list (col M j)) [0..<ncols M]"

definition sum_all :: "mat \<Rightarrow> real" where
  "sum_all M = sum_list (map sum_list M)"

definition mean_axis0 :: "mat \<Rightarrow> vec" where
  "mean_axis0 M = map (\<lambda>s. s / real (length M)) (sum_axis0 M)"

text \<open>The mean along the first axis of an array of known width, and of a vector.\<close>

definition mean_rows :: "nat \<Rightarrow> mat \<Rightarrow> vec" where
  "mean_rows w M = map (\<lambda>j. sum_list (col M j) / real (length M)) [0..<w]"

definition mean_list :: "vec \<Rightarrow> real" where
  "mean_list v = sum_list v / real (length v)"

section \<open>The ridge solver: class \<open>OLS_pytorch\<close>\<close>

text \<open>
  The class is written twice, in \<open>EEG/Encoding/hyperparameter_optimization.py\<close> and in
  \<open>CNN/Encoding/hyperparameter_optimization_cnn.py\<close>. \<open>predict\<close>, \<open>score\<close>,
  \<open>concatenate_ones\<close> and \<open>reshape_x\<close> are the same text in both; \<open>fit\<close> differs and is
  modelled once per file. The EEG class has one more field, \<open>ridge\<close>, which the CNN
  class does not have and the CNN \<open>fit\<close> does not read.

  \<open>self.coefficients\<close> starts as the Python list \<open>[]\<close> and holds a tensor after a fit.
  \<open>use_gpu\<close> only moves the tensors to another device; the model keeps the field and
  not the move.
\<close>

datatype coeffs = PyList | Tensor mat

record ols =
  coefficients :: coeffs
  use_gpu :: bool
  intercept :: bool
  ridge :: bool
  alpha :: real

definition init_ols :: "real \<Rightarrow> ols" where
  "init_ols a =
     \<lparr>coefficients = PyList, use_gpu = False, intercept = True, ridge = True, alpha = a\<rparr>"

definition concatenate_ones :: "mat \<Rightarrow> mat" where
  "concatenate_ones X = map (\<lambda>r. 1 # r) X"

definition reshape_x :: "vec \<Rightarrow> mat" where
  "reshape_x v = map (\<lambda>x. [x]) v"

text \<open>
  The first lines of \<open>fit\<close>: a one-dimensional argument becomes a column. A
  zero-dimensional array is no argument of the search; \<open>fit\<close> raises on it on every
  path (an IndexError from \<open>shape[0]\<close> for the column of ones, or a ValueError from
  unpacking the shape), and the model reports an IndexError.
\<close>

fun as_2d :: "ndarray \<Rightarrow> py_error + mat" where
  "as_2d (Arr0 _) = Inl IndexError"
| "as_2d (Arr1 v) = Inr (reshape_x v)"
| "as_2d (Arr2 M) = Inr M"

text \<open>
  The solvers are torch's, not the repository's: they are a parameter of the model.
  \<open>cholesky\<close> is \<open>torch.linalg.cholesky\<close> (\<open>None\<close> when it raises, the matrix not being
  positive definite), \<open>cholesky_solve B L\<close> is \<open>torch.cholesky_solve\<close>, \<open>lstsq A B\<close> is
  the solution field of \<open>torch.linalg.lstsq\<close> and \<open>solve A B\<close> is \<open>torch.linalg.solve\<close>.
\<close>

record linalg =
  cholesky :: "mat \<Rightarrow> mat option"
  cholesky_solve :: "mat \<Rightarrow> mat \<Rightarrow> mat"
  lstsq :: "mat \<Rightarrow> mat \<Rightarrow> mat option"
  solve :: "mat \<Rightarrow> mat \<Rightarrow> mat option"

text \<open>
  The data augmentation of both \<open>fit\<close>s: \<open>X\<close> stacked on the penalty matrix, \<open>y\<close> on a
  block of zeros, then the Gram matrix \<open>XtX\<close> and the right-hand side \<open>Xty\<close>.
\<close>

definition normal_eqs :: "mat \<Rightarrow> mat \<Rightarrow> mat \<Rightarrow> mat \<Rightarrow> py_error + mat \<times> mat" where
  "normal_eqs X y penalty_matrix zero_matrix =
     (let Xa = X @ penalty_matrix;
          ya = y @ zero_matrix
      in case matmul (t_mat Xa) ya of
           Inl e \<Rightarrow> Inl e
         | Inr Xty \<Rightarrow> Inr (mm (t_mat Xa) Xa, Xty))"

text \<open>The penalty matrix of the EEG file: \<open>np.eye(columns) * np.sqrt(self.alpha)\<close>.\<close>

definition penalty_matrix_eeg :: "nat \<Rightarrow> real \<Rightarrow> mat" where
  "penalty_matrix_eeg columns a = scale_mat (eye columns) (sqrt a)"

text \<open>
  The penalty matrix of the CNN file, which first clears the entry of the intercept:
  \<open>penalty_matrix[0, 0] = 0\<close> (an IndexError when there is no column).
\<close>

definition penalty_matrix_cnn :: "nat \<Rightarrow> real \<Rightarrow> py_error + mat" where
  "penalty_matrix_cnn columns a =
     (if columns = 0 then Inl IndexError
      else Inr (scale_mat ((eye columns)[0 := (eye columns ! 0)[0 := 0]]) (sqrt a)))"

text \<open>
  \<open>fit\<close> of the EEG file, in two steps. First the augmented system: the arguments
  made two-dimensional, the column of ones, the penalty block, \<open>XtX\<close> and \<open>Xty\<close>. With
  \<open>ridge\<close> off, \<open>columns\<close> is read before it is bound.
\<close>

definition augmented_eeg :: "ols \<Rightarrow> ndarray \<Rightarrow> ndarray \<Rightarrow> py_error + mat \<times> mat" where
  "augmented_eeg m X y =
     (case as_2d X of Inl e \<Rightarrow> Inl e | Inr X1 \<Rightarrow>
      case as_2d y of Inl e \<Rightarrow> Inl e | Inr y1 \<Rightarrow>
      let X2 = (if intercept m then concatenate_ones X1 else X1) in
      if \<not> ridge m then Inl UnboundLocalError
      else
        let columns = ncols X2;
            columns_y = ncols y1;
            penalty_matrix = penalty_matrix_eeg columns (alpha m);
            zero_matrix = zeros columns columns_y
        in normal_eqs X2 y1 penalty_matrix zero_matrix)"

text \<open>
  Then the solver. The method returns the coefficients; the model returns the object
  as the call leaves it and the returned tensor. The branch \<open>lstsq\<close> passes \<open>Xty\<close>
  first and \<open>XtX\<close> second, and returns before its assignment to \<open>self.coefficients\<close>.
  A solver name that is none of the three falls through: nothing is stored and \<open>None\<close>
  is returned.
\<close>

definition fit_eeg ::
  "linalg \<Rightarrow> ols \<Rightarrow> ndarray \<Rightarrow> ndarray \<Rightarrow> string \<Rightarrow> py_error + ols \<times> mat option" where
  "fit_eeg lib m X y solver =
     (case augmented_eeg m X y of
        Inl e \<Rightarrow> Inl e
      | Inr (XtX, Xty) \<Rightarrow>
          if solver = ''cholesky'' then
            (case cholesky lib XtX of
               None \<Rightarrow> Inl LinAlgError
             | Some L \<Rightarrow>
                 let betas_cholesky = cholesky_solve lib Xty L
                 in Inr (m\<lparr>coefficients := Tensor betas_cholesky\<rparr>, Some betas_cholesky))
          else if solver = ''lstsq'' then
            (case lstsq lib Xty XtX of
               None \<Rightarrow> Inl LinAlgError
             | Some lstsq_coefficients \<Rightarrow> Inr (m, Some (t_mat lstsq_coefficients)))
          else if solver = ''solve'' then
            (case solve lib XtX Xty of
               None \<Rightarrow> Inl LinAlgError
             | Some solve_coefficients \<Rightarrow>
                 Inr (m\<lparr>coefficients := Tensor solve_coefficients\<rparr>, Some solve_coefficients))
          else Inr (m, None))"

text \<open>\<open>fit\<close> of the CNN file, in the same two steps. It returns nothing.\<close>

definition augmented_cnn :: "ols \<Rightarrow> ndarray \<Rightarrow> ndarray \<Rightarrow> py_error + mat \<times> mat" where
  "augmented_cnn m X y =
     (case as_2d X of Inl e \<Rightarrow> Inl e | Inr X1 \<Rightarrow>
      case as_2d y of Inl e \<Rightarrow> Inl e | Inr y1 \<Rightarrow>
      let X2 = (if intercept m then concatenate_ones X1 else X1);
          columns = ncols X2;
          columns_y = ncols y1
      in case penalty_matrix_cnn columns (alpha m) of
           Inl e \<Rightarrow> Inl e
         | Inr penalty_matrix \<Rightarrow>
             let zero_matrix = zeros columns columns_y
             in normal_eqs X2 y1 penalty_matrix zero_matrix)"

definition fit_cnn :: "linalg \<Rightarrow> ols \<Rightarrow> ndarray \<Rightarrow> ndarray \<Rightarrow> string \<Rightarrow> py_error + ols" where
  "fit_cnn lib m X y solver =
     (case augmented_cnn m X y of
        Inl e \<Rightarrow> Inl e
      | Inr (XtX, Xty) \<Rightarrow>
          if solver = ''cholesky'' then
            (case cholesky lib XtX of
               None \<Rightarrow> Inl LinAlgError
             | Some L \<Rightarrow> Inr (m\<lparr>coefficients := Tensor (cholesky_solve lib Xty L)\<rparr>))
          else if solver = ''lstsq'' then
            (case lstsq lib Xty XtX of
               None \<Rightarrow> Inl LinAlgError
             | Some lstsq_coefficients \<Rightarrow>
                 Inr (m\<lparr>coefficients := Tensor (t_mat lstsq_coefficients)\<rparr>))
          else if solver = ''solve'' then
            (case solve lib XtX Xty of
               None \<Rightarrow> Inl LinAlgError
             | Some b \<Rightarrow> Inr (m\<lparr>coefficients := Tensor b\<rparr>))
          else Inr m)"

text \<open>
  \<open>predict\<close> and \<open>score\<close> prepend the column of ones whatever \<open>intercept\<close> says, and
  multiply by \<open>self.coefficients\<close>: a TypeError while that is still the list \<open>[]\<close>.
  \<open>np.squeeze\<close> drops the axes of length one.
\<close>

definition squeeze :: "mat \<Rightarrow> ndarray" where
  "squeeze P =
     (if length P = 1 \<and> ncols P = 1 then Arr0 (hd (hd P))
      else if length P = 1 then Arr1 (hd P)
      else if P \<noteq> [] \<and> ncols P = 1 then Arr1 (map hd P)
      else Arr2 P)"

definition predict :: "ols \<Rightarrow> mat \<Rightarrow> py_error + ndarray" where
  "predict m entry =
     (case coefficients m of
        PyList \<Rightarrow> Inl TypeError
      | Tensor B \<Rightarrow>
          (case matmul (concatenate_ones entry) B of
             Inl e \<Rightarrow> Inl e
           | Inr prediction \<Rightarrow> Inr (squeeze prediction)))"

datatype score_out = PerChannel vec | Scalar real

text \<open>
  \<open>score\<close>: the residuals \<open>y - yhat\<close>, squared, summed per channel (\<open>axis=0\<close>) or over
  all cells, divided by \<open>n_elements\<close>, then the square root. The model takes \<open>y\<close> and
  \<open>yhat\<close> of one shape (torch would broadcast a single row or column, and raises
  otherwise).
\<close>

definition msub :: "mat \<Rightarrow> mat \<Rightarrow> mat" where
  "msub A B = map2 (map2 (-)) A B"

definition score :: "ols \<Rightarrow> mat \<Rightarrow> mat \<Rightarrow> bool \<Rightarrow> py_error + score_out" where
  "score m entry y channelwise =
     (case coefficients m of
        PyList \<Rightarrow> Inl TypeError
      | Tensor B \<Rightarrow>
          (case matmul (concatenate_ones entry) B of
             Inl e \<Rightarrow> Inl e
           | Inr yhat \<Rightarrow>
               if map length y \<noteq> map length yhat then Inl RuntimeError
               else
                 let difference = msub y yhat;
                     difference_squared = map (map (\<lambda>d. d * d)) difference;
                     rows = length y;
                     columns = ncols y
                 in if channelwise
                    then Inr (PerChannel
                           (map (\<lambda>s. sqrt (s / real columns)) (sum_axis0 difference_squared)))
                    else Inr (Scalar
                           (sqrt (sum_all difference_squared / real (rows * columns))))))"

text \<open>
  The search calls \<open>fit\<close> with the Cholesky solver and, on any exception, again with
  \<open>solve\<close>. A failed call has stored nothing, so the second call starts from the same
  object.
\<close>

definition fit_try_eeg :: "linalg \<Rightarrow> ols \<Rightarrow> ndarray \<Rightarrow> ndarray \<Rightarrow> py_error + ols" where
  "fit_try_eeg lib m X y =
     (case fit_eeg lib m X y ''cholesky'' of
        Inr (m', _) \<Rightarrow> Inr m'
      | Inl _ \<Rightarrow>
          (case fit_eeg lib m X y ''solve'' of Inl e \<Rightarrow> Inl e | Inr (m', _) \<Rightarrow> Inr m'))"

definition fit_try_cnn :: "linalg \<Rightarrow> ols \<Rightarrow> ndarray \<Rightarrow> ndarray \<Rightarrow> py_error + ols" where
  "fit_try_cnn lib m X y =
     (case fit_cnn lib m X y ''cholesky'' of
        Inr m' \<Rightarrow> Inr m'
      | Inl _ \<Rightarrow> fit_cnn lib m X y ''solve'')"

subsection \<open>Exact solvers for two unknowns\<close>

text \<open>
  To run the model on an example the solvers must be given. These solve a system of
  two unknowns exactly: \<open>solve2\<close> by Cramer's rule, \<open>cholesky2\<close> the factor of a
  symmetric positive definite matrix, \<open>cholesky_solve2\<close> the solution from the factor,
  \<open>lstsq1\<close> the least-squares solution for a matrix of one column of full rank.
\<close>

fun solve2 :: "mat \<Rightarrow> mat \<Rightarrow> mat option" where
  "solve2 [[a, b], [c, d]] [r1, r2] =
     (if a * d - b * c = 0 then None
      else Some [map2 (\<lambda>x y. (d * x - b * y) / (a * d - b * c)) r1 r2,
                 map2 (\<lambda>x y. (a * y - c * x) / (a * d - b * c)) r1 r2])"
| "solve2 _ _ = None"

fun cholesky2 :: "mat \<Rightarrow> mat option" where
  "cholesky2 [[a, b], [c, d]] =
     (if b = c \<and> 0 < a \<and> 0 < a * d - b * c
      then Some [[sqrt a, 0], [b / sqrt a, sqrt (d - b * b / a)]]
      else None)"
| "cholesky2 _ = None"

definition cholesky_solve2 :: "mat \<Rightarrow> mat \<Rightarrow> mat" where
  "cholesky_solve2 B L = (case solve2 (mm L (t_mat L)) B of None \<Rightarrow> [] | Some b \<Rightarrow> b)"

definition lstsq1 :: "mat \<Rightarrow> mat \<Rightarrow> mat option" where
  "lstsq1 A B =
     (if A \<noteq> [] \<and> rect 1 A \<and> length B = length A \<and> dot (col A 0) (col A 0) \<noteq> 0
      then Some [map (\<lambda>j. dot (col A 0) (col B j) / dot (col A 0) (col A 0)) [0..<ncols B]]
      else None)"

definition exact2 :: linalg where
  "exact2 =
     \<lparr>cholesky = cholesky2, cholesky_solve = cholesky_solve2, lstsq = lstsq1, solve = solve2\<rparr>"

subsection \<open>The reference: ordinary least squares\<close>

text \<open>
  The specification's reference for a fit without penalty: the normal equations
  \<open>XtX b = Xty\<close> of \<open>X\<close> with the column of ones prepended, handed to the solver.
\<close>

definition ols_system :: "mat \<Rightarrow> mat \<Rightarrow> mat \<times> mat" where
  "ols_system X y = (let X1 = concatenate_ones X in (mm (t_mat X1) X1, mm (t_mat X1) y))"

definition ols_reference :: "linalg \<Rightarrow> string \<Rightarrow> mat \<Rightarrow> mat \<Rightarrow> py_error + mat" where
  "ols_reference lib solver X y =
     (case ols_system X y of (G, r) \<Rightarrow>
        if solver = ''cholesky''
        then (case cholesky lib G of
                None \<Rightarrow> Inl LinAlgError
              | Some L \<Rightarrow> Inr (cholesky_solve lib r L))
        else (case solve lib G r of None \<Rightarrow> Inl LinAlgError | Some b \<Rightarrow> Inr b))"

section \<open>Correlation: \<open>vectorized_correlation\<close>\<close>

text \<open>
  The function is the same text in both files. Its arguments are numpy arrays, so
  \<open>x.std(axis=0)\<close> is numpy's: the square root of the mean of the squared deviations,
  the sum divided by the number of samples. The covariance is divided by the number
  of samples minus 1. The model takes \<open>x\<close> and \<open>y\<close> of one shape.
\<close>

definition sub_row :: "mat \<Rightarrow> vec \<Rightarrow> mat" where
  "sub_row x mu = map (\<lambda>r. map2 (-) r mu) x"

definition mul_elem :: "mat \<Rightarrow> mat \<Rightarrow> mat" where
  "mul_elem a b = map2 (map2 (*)) a b"

definition std_axis0 :: "mat \<Rightarrow> vec" where
  "std_axis0 x = map sqrt (mean_axis0 (map (map (\<lambda>d. d * d)) (sub_row x (mean_axis0 x))))"

definition vectorized_correlation :: "mat \<Rightarrow> mat \<Rightarrow> vec" where
  "vectorized_correlation x y =
     (let centered_x = sub_row x (mean_axis0 x);
          centered_y = sub_row y (mean_axis0 y);
          covariance = sum_axis0 (mul_elem centered_x centered_y);
          bessel_corrected_covariance =
            map (\<lambda>c. c / real_of_int (int (length x) - 1)) covariance;
          x_std = map (\<lambda>s. s + 1 / 10 ^ 8) (std_axis0 x);
          y_std = map (\<lambda>s. s + 1 / 10 ^ 8) (std_axis0 y)
      in map2 (/) bessel_corrected_covariance (map2 (*) x_std y_std))"

definition neg_mat :: "mat \<Rightarrow> mat" where
  "neg_mat x = map (map uminus) x"

text \<open>
  One channel of the correlation, as a function of the two columns: the form the
  proofs use (\<open>vectorized_correlation_cols\<close> shows it is what the code computes).
\<close>

definition corr_col :: "vec \<Rightarrow> vec \<Rightarrow> real" where
  "corr_col u v =
     (sum_list (map2 (*) (map (\<lambda>a. a - mean_list u) u) (map (\<lambda>b. b - mean_list v) v))
        / real_of_int (int (length u) - 1))
     / ((sqrt (mean_list (map (\<lambda>a. (a - mean_list u) * (a - mean_list u)) u)) + 1 / 10 ^ 8)
        * (sqrt (mean_list (map (\<lambda>b. (b - mean_list v) * (b - mean_list v)) v)) + 1 / 10 ^ 8))"

section \<open>The hyperparameter search\<close>

text \<open>
  A loop whose body may raise: the results in order, or the first error.
\<close>

fun traverse :: "('a \<Rightarrow> py_error + 'b) \<Rightarrow> 'a list \<Rightarrow> py_error + 'b list" where
  "traverse f [] = Inr []"
| "traverse f (x # xs) =
     (case f x of
        Inl e \<Rightarrow> Inl e
      | Inr y \<Rightarrow> (case traverse f xs of Inl e \<Rightarrow> Inl e | Inr ys \<Rightarrow> Inr (y # ys)))"

text \<open>
  \<open>rmse[tp, a, :] = rmse_score\<close>: the vector fills the channels of the cell when it has
  as many entries, a single entry is repeated, anything else is a ValueError.
\<close>

definition store_channels :: "nat \<Rightarrow> vec \<Rightarrow> py_error + vec" where
  "store_channels n v =
     (if length v = n then Inr v
      else if length v = 1 then Inr (replicate n (hd v))
      else Inl ValueError)"

text \<open>
  The body of the inner loop, for one response matrix and one penalty: a new model,
  the fit, the prediction on the validation features, the channelwise score and the
  correlation. With one validation sample or one channel \<open>np.squeeze\<close> drops an axis of
  the prediction and the correlation is computed by broadcasting; the model stops
  there with a ValueError and says nothing of such a run.
\<close>

definition scores_of :: "ols \<Rightarrow> mat \<Rightarrow> mat \<Rightarrow> py_error + vec \<times> vec" where
  "scores_of regression X_val y_val_tp =
     (case predict regression X_val of
        Inl e \<Rightarrow> Inl e
      | Inr prediction \<Rightarrow>
          (case score regression X_val y_val_tp True of
             Inl e \<Rightarrow> Inl e
           | Inr rmse_score \<Rightarrow>
               (case prediction of
                  Arr2 P \<Rightarrow>
                    Inr (case rmse_score of PerChannel r \<Rightarrow> r | Scalar s \<Rightarrow> [s],
                         vectorized_correlation P y_val_tp)
                | _ \<Rightarrow> Inl ValueError)))"

definition cell_eeg :: "linalg \<Rightarrow> mat \<Rightarrow> mat \<Rightarrow> mat \<Rightarrow> mat \<Rightarrow> real \<Rightarrow> py_error + vec \<times> vec" where
  "cell_eeg lib X_train X_val y_train_tp y_val_tp a =
     (case fit_try_eeg lib (init_ols a) (Arr2 X_train) (Arr2 y_train_tp) of
        Inl e \<Rightarrow> Inl e
      | Inr regression \<Rightarrow> scores_of regression X_val y_val_tp)"

definition cell_cnn :: "linalg \<Rightarrow> mat \<Rightarrow> mat \<Rightarrow> mat \<Rightarrow> mat \<Rightarrow> real \<Rightarrow> py_error + vec \<times> vec" where
  "cell_cnn lib X_train X_val y_train_tp y_val_tp a =
     (case fit_try_cnn lib (init_ols a) (Arr2 X_train) (Arr2 y_train_tp) of
        Inl e \<Rightarrow> Inl e
      | Inr regression \<Rightarrow> scores_of regression X_val y_val_tp)"

definition store_cell :: "nat \<Rightarrow> py_error + vec \<times> vec \<Rightarrow> py_error + vec \<times> vec" where
  "store_cell n c =
     (case c of
        Inl e \<Rightarrow> Inl e
      | Inr (rmse_score, correlation) \<Rightarrow>
          (case store_channels n rmse_score of
             Inl e \<Rightarrow> Inl e
           | Inr r \<Rightarrow>
               (case store_channels n correlation of
                  Inl e \<Rightarrow> Inl e
                | Inr c \<Rightarrow> Inr (r, c))))"

text \<open>
  \<open>argmin\<close> and \<open>argmax\<close> of numpy on a vector: one pass that keeps the best value so
  far and its index, and replaces them only by a strictly better value. They raise
  on an empty vector.
\<close>

fun argmin_scan :: "real \<Rightarrow> nat \<Rightarrow> nat \<Rightarrow> real list \<Rightarrow> nat" where
  "argmin_scan mp idx i [] = idx"
| "argmin_scan mp idx i (x # xs) =
     (if x < mp then argmin_scan x i (Suc i) xs else argmin_scan mp idx (Suc i) xs)"

definition argmin :: "real list \<Rightarrow> py_error + nat" where
  "argmin xs = (case xs of [] \<Rightarrow> Inl ValueError | x # rest \<Rightarrow> Inr (argmin_scan x 0 1 rest))"

fun argmax_scan :: "real \<Rightarrow> nat \<Rightarrow> nat \<Rightarrow> real list \<Rightarrow> nat" where
  "argmax_scan mp idx i [] = idx"
| "argmax_scan mp idx i (x # xs) =
     (if mp < x then argmax_scan x i (Suc i) xs else argmax_scan mp idx (Suc i) xs)"

definition argmax :: "real list \<Rightarrow> py_error + nat" where
  "argmax xs = (case xs of [] \<Rightarrow> Inl ValueError | x # rest \<Rightarrow> Inr (argmax_scan x 0 1 rest))"

definition get :: "'a list \<Rightarrow> nat \<Rightarrow> py_error + 'a" where
  "get xs i = (if i < length xs then Inr (xs ! i) else Inl IndexError)"

text \<open>
  The selection, the same lines in both files: per timepoint (or layer) the penalty
  at the \<open>argmin\<close> of the channel-reduced error and at the \<open>argmax\<close> of the
  channel-reduced correlation, then the same on the averages over the timepoints.
  \<open>best_alpha_rmse\<close> and \<open>best_alpha_corr\<close> are arrays of one column.
\<close>

record selection =
  best_alpha_rmse :: mat
  best_alpha_corr :: mat
  best_alpha_a_rmse :: real
  best_alpha_a_corr :: real

definition select_best :: "vec \<Rightarrow> mat \<Rightarrow> mat \<Rightarrow> py_error + selection" where
  "select_best alpha_space rmse_avg_chan corr_avg_chan =
     (case traverse argmin rmse_avg_chan of Inl e \<Rightarrow> Inl e | Inr best_alpha_rmse_idx \<Rightarrow>
      case traverse argmax corr_avg_chan of Inl e \<Rightarrow> Inl e | Inr best_alpha_corr_idx \<Rightarrow>
      case traverse (get alpha_space) best_alpha_rmse_idx of Inl e \<Rightarrow> Inl e | Inr by_rmse \<Rightarrow>
      case traverse (get alpha_space) best_alpha_corr_idx of Inl e \<Rightarrow> Inl e | Inr by_corr \<Rightarrow>
      let average_rmse = mean_rows (length alpha_space) rmse_avg_chan;
          average_corr = mean_rows (length alpha_space) corr_avg_chan
      in case argmin average_rmse of Inl e \<Rightarrow> Inl e | Inr best_alpha_a_rmse_idx \<Rightarrow>
         case argmax average_corr of Inl e \<Rightarrow> Inl e | Inr best_alpha_a_corr_idx \<Rightarrow>
         case get alpha_space best_alpha_a_rmse_idx of Inl e \<Rightarrow> Inl e | Inr a_rmse \<Rightarrow>
         case get alpha_space best_alpha_a_corr_idx of Inl e \<Rightarrow> Inl e | Inr a_corr \<Rightarrow>
           Inr \<lparr>best_alpha_rmse = map (\<lambda>a. [a]) by_rmse,
                best_alpha_corr = map (\<lambda>a. [a]) by_corr,
                best_alpha_a_rmse = a_rmse,
                best_alpha_a_corr = a_corr\<rparr>)"

text \<open>
  What breaking ties by the first occurrence says of an index \<open>i\<close> into a vector of
  scores: it is the first index of the minimum (of the maximum), and among the indices
  of equal score it is the lowest and has the smallest penalty.
\<close>

definition is_first_min :: "real list \<Rightarrow> nat \<Rightarrow> bool" where
  "is_first_min xs i =
     (i < length xs \<and> (\<forall>j<length xs. xs ! i \<le> xs ! j) \<and> (\<forall>j<i. xs ! i < xs ! j))"

definition is_first_max :: "real list \<Rightarrow> nat \<Rightarrow> bool" where
  "is_first_max xs i =
     (i < length xs \<and> (\<forall>j<length xs. xs ! j \<le> xs ! i) \<and> (\<forall>j<i. xs ! j < xs ! i))"

definition lowest_tied :: "vec \<Rightarrow> vec \<Rightarrow> nat \<Rightarrow> bool" where
  "lowest_tied alpha_space xs i =
     (\<forall>j<length xs. xs ! j = xs ! i \<longrightarrow> i \<le> j \<and> alpha_space ! i \<le> alpha_space ! j)"

text \<open>The grid of both files: \<open>np.logspace(-5, 10, 10)\<close>, ten points from \<open>1e-5\<close> to \<open>1e10\<close>.\<close>

definition alpha_logspace :: vec where
  "alpha_logspace = map (\<lambda>k. 10 powr (- 5 + real k * (15 / 9))) [0..<10]"

text \<open>
  What the search stores for one feature: the dictionary \<open>output\<close>, with the four
  selections and the entries \<open>rmse_score\<close> and \<open>correlation\<close>.
\<close>

record tuning_output = selection +
  rmse_score :: "mat list"
  correlation :: "mat list"

definition with_scores :: "selection \<Rightarrow> mat list \<Rightarrow> mat list \<Rightarrow> tuning_output" where
  "with_scores sel r c =
     \<lparr>best_alpha_rmse = best_alpha_rmse sel, best_alpha_corr = best_alpha_corr sel,
      best_alpha_a_rmse = best_alpha_a_rmse sel, best_alpha_a_corr = best_alpha_a_corr sel,
      rmse_score = r, correlation = c\<rparr>"

text \<open>
  The search of the EEG file for one feature. \<open>y_train\<close> and \<open>y_validation\<close> are the
  response matrices listed by timepoint (the slices \<open>y[:, :, tp]\<close>), \<open>timepoints\<close> the
  number of them in the training data. The penalty grid is the value of
  \<open>np.logspace(-5, 10, 10)\<close> in the file and a parameter here. \<open>rmse\<close> and \<open>corr\<close> are
  allocated for \<open>n_channels\<close> channels and filled cell by cell.
\<close>

definition hyperparameter_tuning_eeg ::
  "linalg \<Rightarrow> nat \<Rightarrow> vec \<Rightarrow> mat \<Rightarrow> mat \<Rightarrow> mat list \<Rightarrow> mat list \<Rightarrow> py_error + tuning_output" where
  "hyperparameter_tuning_eeg lib n_channels alpha_space X_train X_val y_train y_validation =
     (case traverse
             (\<lambda>tp. case get y_validation tp of
                      Inl e \<Rightarrow> Inl e
                    | Inr y_val_tp \<Rightarrow>
                        traverse
                          (\<lambda>a. store_cell n_channels
                                 (cell_eeg lib X_train X_val (y_train ! tp) y_val_tp a))
                          alpha_space)
             [0..<length y_train] of
        Inl e \<Rightarrow> Inl e
      | Inr cells \<Rightarrow>
          let rmse = map (map fst) cells;
              corr = map (map snd) cells;
              rmse_avg_chan = map (map mean_list) rmse;
              corr_avg_chan = map (map mean_list) corr
          in case select_best alpha_space rmse_avg_chan corr_avg_chan of
               Inl e \<Rightarrow> Inl e
             | Inr sel \<Rightarrow> Inr (with_scores sel rmse corr))"

text \<open>
  The search of the CNN file for one feature. A layer is its training responses, its
  validation responses and its explained variances, as the file loads them by layer
  name. For each layer \<open>rmse\<close> and \<open>corr\<close> are allocated anew, with a first axis of
  length 1, filled, and kept in \<open>rmse_scores\<close> and \<open>corr_scores\<close>. The channel axis is
  reduced with the explained variances as weights, one per channel (numpy would also
  broadcast a single weight; the model takes that for a ValueError). At the end
  \<open>output["rmse_score"]\<close> is assigned \<open>rmse\<close> and \<open>output["correlation"]\<close> is assigned
  \<open>corr\<close>, the arrays of the loop's last pass (unbound when there is no layer).
\<close>

definition layer_scores ::
  "linalg \<Rightarrow> vec \<Rightarrow> mat \<Rightarrow> mat \<Rightarrow> mat \<times> mat \<times> vec \<Rightarrow> py_error + mat \<times> mat" where
  "layer_scores lib alpha_space X_train X_val l =
     (case l of (y_train_tp, y_val_tp, _) \<Rightarrow>
        (case traverse
                (\<lambda>a. store_cell (ncols y_train_tp)
                       (cell_cnn lib X_train X_val y_train_tp y_val_tp a))
                alpha_space of
           Inl e \<Rightarrow> Inl e
         | Inr cells \<Rightarrow> Inr (map fst cells, map snd cells)))"

definition weighted_avg :: "vec \<Rightarrow> mat \<Rightarrow> py_error + vec" where
  "weighted_avg explained_var scores_it =
     (let total_variance = sum_list explained_var
      in if list_all (\<lambda>r. length r = length explained_var) scores_it
         then Inr (map (\<lambda>r. sum_list (map2 (*) r explained_var) / total_variance) scores_it)
         else Inl ValueError)"

definition hyperparameter_tuning_cnn ::
  "linalg \<Rightarrow> vec \<Rightarrow> mat \<Rightarrow> mat \<Rightarrow> (mat \<times> mat \<times> vec) list \<Rightarrow> py_error + tuning_output" where
  "hyperparameter_tuning_cnn lib alpha_space X_train X_val layers =
     (case traverse (layer_scores lib alpha_space X_train X_val) layers of
        Inl e \<Rightarrow> Inl e
      | Inr scores \<Rightarrow>
          let rmse_scores = map fst scores;
              corr_scores = map snd scores;
              explained = map (\<lambda>l. snd (snd l)) layers
          in case traverse (\<lambda>(ev, s). weighted_avg ev s) (zip explained rmse_scores) of
               Inl e \<Rightarrow> Inl e
             | Inr rmse_avg_chan \<Rightarrow>
          case traverse (\<lambda>(ev, s). weighted_avg ev s) (zip explained corr_scores) of
               Inl e \<Rightarrow> Inl e
             | Inr corr_avg_chan \<Rightarrow>
          case select_best alpha_space rmse_avg_chan corr_avg_chan of
               Inl e \<Rightarrow> Inl e
             | Inr sel \<Rightarrow>
                 if scores = [] then Inl UnboundLocalError
                 else Inr (with_scores sel [fst (last scores)] [snd (last scores)]))"

section \<open>Bootstrap confidence intervals: \<open>bootstrapping_CI\<close>\<close>

text \<open>
  \<open>scipy.stats.rankdata\<close> gives tied values the average of their ranks: the number of
  smaller values plus half of the number of equal values plus one. \<open>np.argsort\<close> gives
  the indices in the order of their keys; the model sorts stably, and numpy's order
  among equal keys does not matter here, equal ranks being ranks of equal values.
\<close>

definition rankdata :: "real list \<Rightarrow> real list" where
  "rankdata xs =
     map (\<lambda>x. real (length (filter (\<lambda>y. y < x) xs))
               + (real (length (filter (\<lambda>y. y = x) xs)) + 1) / 2) xs"

definition argsort :: "real list \<Rightarrow> nat list" where
  "argsort ks = sort_key (\<lambda>i. ks ! i) [0..<length ks]"

text \<open>
  The two positions of the accuracy interval: \<open>int(np.ceil(n_perm * 0.975))\<close> and
  \<open>int(np.ceil(n_perm * 0.025))\<close>. The products are taken exactly; the floating-point
  products have the same ceilings for every sample size below \<open>10 ^ 14\<close>.
\<close>

definition ci_upper :: "nat \<Rightarrow> nat" where
  "ci_upper n_perm = nat \<lceil>real n_perm * (975 / 1000)\<rceil>"

definition ci_lower :: "nat \<Rightarrow> nat" where
  "ci_lower n_perm = nat \<lceil>real n_perm * (25 / 1000)\<rceil>"

text \<open>
  The body of the loop over timepoints (STEP 2.4): \<open>tp_data\<close> is the row \<open>bt_data[tp, :]\<close>
  of the \<open>n_perm\<close> bootstrap means. The ranks and the data are stacked, both rows are
  put in the order of the ranks, and the second row is read at \<open>lower\<close>, then at
  \<open>upper\<close>.
\<close>

definition ci_accuracy :: "nat \<Rightarrow> real list \<Rightarrow> py_error + real list" where
  "ci_accuracy n_perm tp_data =
     (let upper = ci_upper n_perm;
          lower = ci_lower n_perm;
          ranks = rankdata tp_data;
          t_data = [ranks, tp_data];
          ascending_ranks_idx = argsort ranks;
          ascending_ranks = map (\<lambda>row. map ((!) row) ascending_ranks_idx) t_data
      in case get (ascending_ranks ! 1) lower of
           Inl e \<Rightarrow> Inl e
         | Inr lower_CI \<Rightarrow>
             (case get (ascending_ranks ! 1) upper of
                Inl e \<Rightarrow> Inl e
              | Inr upper_CI \<Rightarrow> Inr [lower_CI, upper_CI]))"

text \<open>
  The peak latency. \<open>time_ms\<close> is \<open>np.arange(-400, 1000, 20)\<close>, seventy timestamps; the
  peak of a vector of mean scores is the timestamp at its \<open>argmax\<close>.
\<close>

definition time_ms :: "int list" where
  "time_ms = map (\<lambda>i. - 400 + 20 * int i) [0..<70]"

definition peak_ms :: "vec \<Rightarrow> py_error + int" where
  "peak_ms v = (case argmax v of Inl e \<Rightarrow> Inl e | Inr k \<Rightarrow> get time_ms k)"

text \<open>
  \<open>results[idx].reshape((n_sub, timepoints))\<close>: the rows of the subjects drawn, an
  IndexError for an index that is no row, a ValueError when the rows do not have
  \<open>timepoints\<close> entries.
\<close>

definition take_rows :: "nat \<Rightarrow> mat \<Rightarrow> nat list \<Rightarrow> py_error + mat" where
  "take_rows timepoints results idx =
     (case traverse (get results) idx of
        Inl e \<Rightarrow> Inl e
      | Inr rows \<Rightarrow> if rect timepoints rows then Inr rows else Inl ValueError)"

text \<open>
  One draw of the bootstrap of the difference of two peak latencies (STEP 2.9), given
  the indices drawn.
\<close>

definition peak_diff_draw :: "nat \<Rightarrow> mat \<Rightarrow> mat \<Rightarrow> nat list \<Rightarrow> py_error + int" where
  "peak_diff_draw timepoints results_feature_A results_feature_B perm_peak_data_idx =
     (case take_rows timepoints results_feature_A perm_peak_data_idx of
        Inl e \<Rightarrow> Inl e
      | Inr perm_peak_data_A \<Rightarrow>
     case take_rows timepoints results_feature_B perm_peak_data_idx of
        Inl e \<Rightarrow> Inl e
      | Inr perm_peak_data_B \<Rightarrow>
          let perm_mean_A = mean_rows timepoints perm_peak_data_A;
              perm_mean_B = mean_rows timepoints perm_peak_data_B
          in case peak_ms perm_mean_A of
               Inl e \<Rightarrow> Inl e
             | Inr peak_A \<Rightarrow>
                 (case peak_ms perm_mean_B of
                    Inl e \<Rightarrow> Inl e
                  | Inr peak_B \<Rightarrow> Inr (peak_A - peak_B)))"

text \<open>
  The loop over the draws. numpy's random generator is a parameter: \<open>choice g a n\<close> is
  \<open>np.random.choice(a, size=(n, 1), replace=True)\<close> in the state \<open>g\<close>, the indices drawn
  and the state after the call. The loop threads the state through its passes and
  returns \<open>bt_data_peaks\<close> and the last state.
\<close>

fun peak_diff_loop ::
  "('g \<Rightarrow> nat \<Rightarrow> nat \<Rightarrow> nat list \<times> 'g) \<Rightarrow> nat \<Rightarrow> nat \<Rightarrow> mat \<Rightarrow> mat \<Rightarrow> nat \<Rightarrow> 'g
     \<Rightarrow> py_error + int list \<times> 'g" where
  "peak_diff_loop choice n_sub timepoints A B 0 g = Inr ([], g)"
| "peak_diff_loop choice n_sub timepoints A B (Suc k) g =
     (case choice g (length A) n_sub of
        (perm_peak_data_idx, g') \<Rightarrow>
          (case peak_diff_draw timepoints A B perm_peak_data_idx of
             Inl e \<Rightarrow> Inl e
           | Inr feature_diff_bt \<Rightarrow>
               (case peak_diff_loop choice n_sub timepoints A B k g' of
                  Inl e \<Rightarrow> Inl e
                | Inr (ds, g'') \<Rightarrow> Inr (feature_diff_bt # ds, g''))))"

text \<open>
  The state of the generator after \<open>p\<close> calls with the same arguments, and the indices
  that the next call draws.
\<close>

definition state_after ::
  "('g \<Rightarrow> nat \<Rightarrow> nat \<Rightarrow> nat list \<times> 'g) \<Rightarrow> nat \<Rightarrow> nat \<Rightarrow> 'g \<Rightarrow> nat \<Rightarrow> 'g" where
  "state_after choice a n g p = ((\<lambda>s. snd (choice s a n)) ^^ p) g"

definition draw_idx ::
  "('g \<Rightarrow> nat \<Rightarrow> nat \<Rightarrow> nat list \<times> 'g) \<Rightarrow> nat \<Rightarrow> nat \<Rightarrow> 'g \<Rightarrow> nat \<Rightarrow> nat list" where
  "draw_idx choice a n g p = fst (choice (state_after choice a n g p) a n)"

text \<open>A generator for examples: the call in state \<open>g\<close> draws subject \<open>g mod a\<close> every time.\<close>

definition choice_cycle :: "nat \<Rightarrow> nat \<Rightarrow> nat \<Rightarrow> nat list \<times> nat" where
  "choice_cycle g a n = (replicate n (g mod a), Suc g)"

section \<open>The permutation test: \<open>permutation_test\<close>\<close>

text \<open>
  \<open>results_f_vid\<close> and \<open>results_f_img\<close> are the scores of the two groups, one row per
  subject and \<open>timepoints\<close> columns. Row 0 of \<open>stat_map\<close> is the observed statistic.
\<close>

definition t_stat_observed :: "nat \<Rightarrow> mat \<Rightarrow> mat \<Rightarrow> vec" where
  "t_stat_observed timepoints results_f_vid results_f_img =
     (let mean_orig_vid = mean_rows timepoints results_f_vid;
          mean_orig_img = mean_rows timepoints results_f_img
      in map2 (-) mean_orig_vid mean_orig_img)"

text \<open>
  The sign of each subject, broadcast over the timepoints and multiplied into the
  scores; the broadcast fails unless there is one sign per subject.
\<close>

definition flip_rows :: "mat \<Rightarrow> real list \<Rightarrow> py_error + mat" where
  "flip_rows results perm =
     (if length perm = length results
      then Inr (map2 (\<lambda>r s. map (\<lambda>v. v * s) r) results perm)
      else Inl ValueError)"

text \<open>The statistic of one permutation, given the signs drawn for the two groups.\<close>

definition t_stat_permuted :: "nat \<Rightarrow> mat \<Rightarrow> mat \<Rightarrow> real list \<Rightarrow> real list \<Rightarrow> py_error + vec" where
  "t_stat_permuted timepoints results_f_vid results_f_img perm_vid perm_img =
     (case flip_rows results_f_vid perm_vid of
        Inl e \<Rightarrow> Inl e
      | Inr permutation_mat_vid \<Rightarrow>
          (case flip_rows results_f_img perm_img of
             Inl e \<Rightarrow> Inl e
           | Inr permutation_mat_img \<Rightarrow>
               let mean_orig_vid = mean_rows timepoints permutation_mat_vid;
                   mean_orig_img = mean_rows timepoints permutation_mat_img
               in Inr (map2 (-) mean_orig_img mean_orig_vid)))"

text \<open>
  The loop over the permutations 1 to \<open>n_perm - 1\<close>. The generator is a parameter:
  \<open>sign_choice g n\<close> is \<open>np.random.choice([-1, 1], size=(n,), replace=True)\<close> in the state
  \<open>g\<close>. Each pass draws the signs of the video group, then those of the image group.
\<close>

fun perm_loop ::
  "('g \<Rightarrow> nat \<Rightarrow> real list \<times> 'g) \<Rightarrow> nat \<Rightarrow> mat \<Rightarrow> mat \<Rightarrow> nat \<Rightarrow> 'g \<Rightarrow> py_error + mat \<times> 'g" where
  "perm_loop sign_choice timepoints vid img 0 g = Inr ([], g)"
| "perm_loop sign_choice timepoints vid img (Suc k) g =
     (case sign_choice g (length vid) of
        (perm_vid, g1) \<Rightarrow>
          (case sign_choice g1 (length img) of
             (perm_img, g2) \<Rightarrow>
               (case t_stat_permuted timepoints vid img perm_vid perm_img of
                  Inl e \<Rightarrow> Inl e
                | Inr t_stat \<Rightarrow>
                    (case perm_loop sign_choice timepoints vid img k g2 of
                       Inl e \<Rightarrow> Inl e
                     | Inr (rows, g3) \<Rightarrow> Inr (t_stat # rows, g3)))))"

text \<open>
  \<open>stat_map\<close>, allocated with \<open>n_perm\<close> rows: writing row 0 fails when there is none.
\<close>

definition stat_map ::
  "('g \<Rightarrow> nat \<Rightarrow> real list \<times> 'g) \<Rightarrow> nat \<Rightarrow> nat \<Rightarrow> mat \<Rightarrow> mat \<Rightarrow> 'g \<Rightarrow> py_error + mat \<times> 'g" where
  "stat_map sign_choice n_perm timepoints results_f_vid results_f_img g =
     (if n_perm = 0 then Inl IndexError
      else
        (case perm_loop sign_choice timepoints results_f_vid results_f_img (n_perm - 1) g of
           Inl e \<Rightarrow> Inl e
         | Inr (rows, g') \<Rightarrow>
             Inr (t_stat_observed timepoints results_f_vid results_f_img # rows, g')))"

section \<open>Evaluation lemmas\<close>

lemma upt_2: "[0..<2] = [0, 1]"
  by (simp add: upt_rec)

lemma upt_1: "[0..<1] = [0]"
  by (simp add: upt_rec)

lemmas fit_defs =
  fit_eeg_def fit_cnn_def augmented_eeg_def augmented_cnn_def penalty_matrix_eeg_def
  penalty_matrix_cnn_def normal_eqs_def init_ols_def exact2_def cholesky_solve2_def lstsq1_def
  Let_def

lemmas array_defs =
  ncols_def rect_def col_def dot_def t_mat_def mm_def matmul_def eye_def zeros_def
  scale_mat_def sum_axis0_def sum_all_def mean_axis0_def concatenate_ones_def reshape_x_def
  msub_def

section \<open>The score of a fitted model\<close>

text \<open>Channelwise, whatever the data, the divisor is \<open>ncols y\<close>, the number of channels.\<close>

lemma score_channelwise_formula:
  assumes "coefficients m = Tensor B" and "matmul (concatenate_ones entry) B = Inr yhat"
    and "map length y = map length yhat"
  shows "score m entry y True
     = Inr (PerChannel (map (\<lambda>s. sqrt (s / real (ncols y)))
          (sum_axis0 (map (map (\<lambda>d. d * d)) (msub y yhat)))))"
  using assms by (simp add: score_def Let_def)

text \<open>
  C1. The claim: channelwise, \<open>score\<close> is per channel the square root of the sum of the
  squared residuals divided by the number of samples. The code divides by \<open>columns\<close>,
  the number of channels. With four samples of one channel, every residual 1, the sum
  of squares is 4: the code returns \<open>sqrt (4 / 1) = 2\<close>, the root mean square error is
  \<open>sqrt (4 / 4) = 1\<close>. Not channelwise the code divides by \<open>rows * columns\<close> and
  returns 1 there.
\<close>

theorem score_channelwise_divides_by_channels:
  "score ((init_ols 0)\<lparr>coefficients := Tensor [[0], [0]]\<rparr>)
      [[0], [0], [0], [0]] [[1], [1], [1], [1]] True = Inr (PerChannel [2])
   \<and> score ((init_ols 0)\<lparr>coefficients := Tensor [[0], [0]]\<rparr>)
      [[0], [0], [0], [0]] [[1], [1], [1], [1]] False = Inr (Scalar 1)"
  by (simp add: score_def init_ols_def array_defs upt_1)


section \<open>The penalty and the intercept\<close>

text \<open>
  Whatever the number of columns and the penalty, the entry of the intercept is
  \<open>sqrt alpha\<close> in the EEG file and 0 in the CNN file.
\<close>

lemma penalty_matrix_eeg_intercept:
  "0 < columns \<Longrightarrow> penalty_matrix_eeg columns a ! 0 ! 0 = sqrt a"
  by (simp add: penalty_matrix_eeg_def scale_mat_def eye_def)

lemma penalty_matrix_cnn_intercept:
  "0 < columns \<Longrightarrow> \<exists>P. penalty_matrix_cnn columns a = Inr P \<and> P ! 0 ! 0 = 0"
  by (simp add: penalty_matrix_cnn_def scale_mat_def eye_def)

text \<open>
  C2. The claim: with the intercept on, \<open>fit\<close> keeps the intercept out of the penalty,
  the diagonal entry of the penalty block for the column of ones being zero. The CNN
  file does so (\<open>penalty_matrix[0, 0] = 0\<close>, "Since we don't want to penalize the
  intercept"); the EEG file has no such line. For \<open>X = [[1], [2]]\<close>, \<open>y = [[1], [2]]\<close>
  and penalty 1 the EEG penalty block is the whole identity and its Gram matrix has
  \<open>3 = 2 + 1\<close> where the CNN file has 2: the intercept is penalized.
\<close>

theorem fit_eeg_penalizes_intercept:
  "augmented_eeg (init_ols 1) (Arr2 [[1], [2]]) (Arr2 [[1], [2]])
     = Inr ([[3, 3], [3, 6]], [[3], [5]])
   \<and> augmented_cnn (init_ols 1) (Arr2 [[1], [2]]) (Arr2 [[1], [2]])
     = Inr ([[2, 3], [3, 6]], [[3], [5]])
   \<and> penalty_matrix_eeg 2 1 = [[1, 0], [0, 1]]
   \<and> penalty_matrix_cnn 2 1 = Inr [[0, 0], [0, 1]]"
  by (simp add: fit_defs array_defs upt_2 upt_1)

section \<open>Zero penalty is ordinary least squares\<close>

lemma col_append: "col (A @ B) j = col A j @ col B j"
  by (simp add: col_def)

lemma length_col: "length (col A j) = length A"
  by (simp add: col_def)

lemma dot_append: "length a = length c \<Longrightarrow> dot (a @ b) (c @ d) = dot a c + dot b d"
  by (simp add: dot_def)

lemma dot_zero_left: "set u \<subseteq> {0} \<Longrightarrow> dot u v = 0"
proof (induction u arbitrary: v)
  case Nil
  then show ?case by (simp add: dot_def)
next
  case (Cons a u)
  then show ?case by (cases v) (auto simp: dot_def)
qed

lemma dot_zero_right: "set v \<subseteq> {0} \<Longrightarrow> dot u v = 0"
proof (induction u arbitrary: v)
  case Nil
  then show ?case by (simp add: dot_def)
next
  case (Cons a u)
  then show ?case by (cases v) (auto simp: dot_def)
qed

lemma ncols_append: "A \<noteq> [] \<Longrightarrow> ncols (A @ B) = ncols A"
  by (cases A) (simp_all add: ncols_def)

lemma col_scale_zero:
  assumes "rect c M" and "j < c"
  shows "set (col (scale_mat M 0) j) \<subseteq> {0}"
  using assms by (auto simp: col_def scale_mat_def rect_def list_all_iff)

lemma col_zeros: "j < c \<Longrightarrow> set (col (zeros r c) j) \<subseteq> {0}"
  by (auto simp: col_def zeros_def)

lemma rect_eye: "rect n (eye n)"
  by (simp add: rect_def eye_def list_all_iff)

lemma rect_update: "rect n M \<Longrightarrow> length r = n \<Longrightarrow> rect n (M[i := r])"
  by (auto simp: rect_def list_all_iff dest: set_update_subset_insert [THEN subsetD])

lemma length_eye: "length (eye n) = n"
  by (simp add: eye_def)

text \<open>A penalty block of zeros adds nothing to the Gram matrix, nor to the right-hand side.\<close>

lemma gram_zero_block:
  assumes "X \<noteq> []" and zero: "\<And>j. j < ncols X \<Longrightarrow> set (col P j) \<subseteq> {0}"
  shows "mm (t_mat (X @ P)) (X @ P) = mm (t_mat X) X"
proof -
  have "dot (col (X @ P) i) (col (X @ P) j) = dot (col X i) (col X j)"
    if "i < ncols X" "j < ncols X" for i j
  proof -
    have "dot (col P i) (col P j) = 0"
      using zero [OF that(1)] by (rule dot_zero_left)
    then show ?thesis
      by (simp add: col_append dot_append length_col)
  qed
  then show ?thesis
    using assms(1) by (simp add: mm_def t_mat_def ncols_append)
qed

lemma rhs_zero_block:
  assumes "X \<noteq> []" and "length y = length X" and "length Z = length P"
    and zero: "\<And>j. j < ncols y \<Longrightarrow> set (col Z j) \<subseteq> {0}"
  shows "matmul (t_mat (X @ P)) (y @ Z) = Inr (mm (t_mat X) y)"
proof -
  have y: "y \<noteq> []"
    using assms(1,2) by auto
  have "dot (col (X @ P) i) (col (y @ Z) j) = dot (col X i) (col y j)"
    if "j < ncols y" for i j
  proof -
    have "dot (col P i) (col Z j) = 0"
      using zero [OF that] by (rule dot_zero_right)
    then show ?thesis
      using assms(2) by (simp add: col_append dot_append length_col)
  qed
  then have "mm (t_mat (X @ P)) (y @ Z) = mm (t_mat X) y"
    using assms(1) y by (simp add: mm_def t_mat_def ncols_append)
  moreover have "list_all (\<lambda>r. length r = length (y @ Z)) (t_mat (X @ P))"
    using assms(2,3) by (simp add: t_mat_def list_all_iff length_col)
  ultimately show ?thesis
    by (simp add: matmul_def)
qed

lemma normal_eqs_zero_block:
  assumes "X \<noteq> []" and "length y = length X" and "length Z = length P"
    and "\<And>j. j < ncols X \<Longrightarrow> set (col P j) \<subseteq> {0}"
    and "\<And>j. j < ncols y \<Longrightarrow> set (col Z j) \<subseteq> {0}"
  shows "normal_eqs X y P Z = Inr (mm (t_mat X) X, mm (t_mat X) y)"
  using gram_zero_block [OF assms(1,4)] rhs_zero_block [OF assms(1,2,3,5)]
  by (simp add: normal_eqs_def)

lemma augmented_eeg_zero:
  assumes "as_2d X = Inr X1" and "as_2d y = Inr y1" and "X1 \<noteq> []"
    and "length y1 = length X1" and "alpha m = 0" and "intercept m" and "ridge m"
  shows "augmented_eeg m X y = Inr (ols_system X1 y1)"
proof -
  let ?X2 = "concatenate_ones X1"
  let ?c = "ncols ?X2"
  have ne: "?X2 \<noteq> []" and len: "length y1 = length ?X2"
    using assms(3,4) by (simp_all add: concatenate_ones_def)
  have P: "set (col (penalty_matrix_eeg ?c 0) j) \<subseteq> {0}" if "j < ?c" for j
    using col_scale_zero [OF rect_eye that] by (simp add: penalty_matrix_eeg_def)
  have Z: "set (col (zeros ?c (ncols y1)) j) \<subseteq> {0}" if "j < ncols y1" for j
    using that by (rule col_zeros)
  have "length (zeros ?c (ncols y1)) = length (penalty_matrix_eeg ?c 0)"
    by (simp add: zeros_def penalty_matrix_eeg_def scale_mat_def length_eye)
  from normal_eqs_zero_block [OF ne len this P Z]
  show ?thesis
    using assms by (simp add: augmented_eeg_def ols_system_def Let_def)
qed

lemma augmented_cnn_zero:
  assumes "as_2d X = Inr X1" and "as_2d y = Inr y1" and "X1 \<noteq> []"
    and "length y1 = length X1" and "alpha m = 0" and "intercept m"
  shows "augmented_cnn m X y = Inr (ols_system X1 y1)"
proof -
  let ?X2 = "concatenate_ones X1"
  let ?c = "ncols ?X2"
  let ?E = "(eye ?c)[0 := (eye ?c ! 0)[0 := 0]]"
  have ne: "?X2 \<noteq> []" and len: "length y1 = length ?X2"
    using assms(3,4) by (simp_all add: concatenate_ones_def)
  have c: "?c \<noteq> 0"
    using assms(3) by (cases X1) (simp_all add: concatenate_ones_def ncols_def)
  have "length (eye ?c ! 0) = ?c"
    using c by (simp add: eye_def)
  then have "rect ?c ?E"
    by (intro rect_update rect_eye) simp
  then have P: "set (col (scale_mat ?E 0) j) \<subseteq> {0}" if "j < ?c" for j
    using that by (rule col_scale_zero)
  have Z: "set (col (zeros ?c (ncols y1)) j) \<subseteq> {0}" if "j < ncols y1" for j
    using that by (rule col_zeros)
  have "length (zeros ?c (ncols y1)) = length (scale_mat ?E 0)"
    by (simp add: zeros_def scale_mat_def length_eye)
  from normal_eqs_zero_block [OF ne len this P Z]
  show ?thesis
    using assms c by (simp add: augmented_cnn_def penalty_matrix_cnn_def ols_system_def Let_def)
qed

text \<open>
  C5. With penalty 0 and the intercept on, \<open>fit\<close> hands the solver exactly the normal
  equations of ordinary least squares on \<open>X\<close> with the column of ones, so the
  coefficients it stores are those of the reference solve. This holds in both files,
  for the solver the search uses (\<open>cholesky\<close>) and for its fallback (\<open>solve\<close>), for
  arguments of one or two dimensions, and whatever the solvers are. (The branch
  \<open>lstsq\<close>, which the search never takes, passes its two arguments in the other
  order.)
\<close>

theorem fit_zero_penalty_is_ols:
  assumes "as_2d X = Inr X1" and "as_2d y = Inr y1" and "X1 \<noteq> []"
    and "rect f X1" and "rect cy y1"
    and "length y1 = length X1" and "alpha m = 0" and "intercept m" and "ridge m"
    and "solver = ''cholesky'' \<or> solver = ''solve''"
  shows "fit_eeg lib m X y solver
           = map_sum id (\<lambda>b. (m\<lparr>coefficients := Tensor b\<rparr>, Some b))
               (ols_reference lib solver X1 y1)
       \<and> fit_cnn lib m X y solver
           = map_sum id (\<lambda>b. m\<lparr>coefficients := Tensor b\<rparr>) (ols_reference lib solver X1 y1)"
  using augmented_eeg_zero [OF assms(1,2,3,6,7,8,9)] augmented_cnn_zero [OF assms(1,2,3,6,7,8)]
    assms(10)
  by (auto simp: fit_eeg_def fit_cnn_def ols_reference_def Let_def
      split: prod.splits option.splits)

text \<open>
  The witness: four samples of one feature with \<open>y = 2 x\<close>. The fit, by Cholesky
  factorization, stores intercept 0 and slope 2, as the reference does.
\<close>

theorem fit_zero_penalty_is_ols_witness:
  "as_2d (Arr2 [[-1], [1], [-1], [1]]) = Inr [[-1], [1], [-1], [1]]
   \<and> as_2d (Arr2 [[-2], [2], [-2], [2]]) = Inr [[-2], [2], [-2], [2]]
   \<and> rect 1 [[-1], [1], [-1], [1::real]] \<and> rect 1 [[-2], [2], [-2], [2::real]]
   \<and> alpha (init_ols 0) = 0 \<and> intercept (init_ols 0) \<and> ridge (init_ols 0)
   \<and> ols_reference exact2 ''cholesky'' [[-1], [1], [-1], [1]] [[-2], [2], [-2], [2]]
       = Inr [[0], [2]]
   \<and> fit_eeg exact2 (init_ols 0) (Arr2 [[-1], [1], [-1], [1]]) (Arr2 [[-2], [2], [-2], [2]])
       ''cholesky''
       = Inr ((init_ols 0)\<lparr>coefficients := Tensor [[0], [2]]\<rparr>, Some [[0], [2]])
   \<and> fit_cnn exact2 (init_ols 0) (Arr2 [[-1], [1], [-1], [1]]) (Arr2 [[-2], [2], [-2], [2]])
       ''cholesky''
       = Inr ((init_ols 0)\<lparr>coefficients := Tensor [[0], [2]]\<rparr>)"
proof -
  have ref: "ols_reference exact2 ''cholesky'' [[-1], [1], [-1], [1]] [[-2], [2], [-2], [2]]
       = Inr [[0], [2]]"
    by (simp add: ols_reference_def ols_system_def fit_defs array_defs upt_2 upt_1)
  have hyps: "rect 1 [[-1], [1], [-1], [1::real]]" "rect 1 [[-2], [2], [-2], [2::real]]"
    "alpha (init_ols 0) = 0" "intercept (init_ols 0)" "ridge (init_ols 0)"
    by (simp_all add: rect_def init_ols_def)
  from fit_zero_penalty_is_ols [of "Arr2 [[-1], [1], [-1], [1]]" "[[-1], [1], [-1], [1]]"
      "Arr2 [[-2], [2], [-2], [2]]" "[[-2], [2], [-2], [2]]" 1 1 "init_ols 0" "''cholesky''" exact2]
    hyps ref
  show ?thesis by simp
qed

text \<open>
  So where torch's solvers solve the system they are given, the coefficients that the
  search's call of \<open>fit\<close> stores solve the normal equations \<open>G b = r\<close> of ordinary least
  squares.
\<close>

lemma fit_try_zero_penalty_normal_equations:
  assumes "as_2d X = Inr X1" and "as_2d y = Inr y1" and "X1 \<noteq> []"
    and "length y1 = length X1" and "alpha m = 0" and "intercept m" and "ridge m"
    and sys: "ols_system X1 y1 = (G, r)"
    and chol: "\<And>L. cholesky lib G = Some L \<Longrightarrow> mm G (cholesky_solve lib r L) = r"
    and slv: "\<And>b. solve lib G r = Some b \<Longrightarrow> mm G b = r"
    and run: "fit_try_eeg lib m X y = Inr m' \<or> fit_try_cnn lib m X y = Inr m'"
  shows "\<exists>b. coefficients m' = Tensor b \<and> mm G b = r"
proof -
  note e = augmented_eeg_zero [OF assms(1,2,3,4,5,6,7)]
  note c = augmented_cnn_zero [OF assms(1,2,3,4,5,6)]
  from run show ?thesis
  proof
    assume "fit_try_eeg lib m X y = Inr m'"
    then show ?thesis
      using chol slv
      by (auto simp: fit_try_eeg_def fit_eeg_def e sys Let_def split: sum.splits option.splits)
  next
    assume "fit_try_cnn lib m X y = Inr m'"
    then show ?thesis
      using chol slv
      by (auto simp: fit_try_cnn_def fit_cnn_def c sys Let_def split: sum.splits option.splits)
  qed
qed

section \<open>The branch \<open>lstsq\<close> of the EEG file\<close>

text \<open>
  C10. In the EEG file a call of \<open>fit\<close> with the solver \<open>lstsq\<close> that returns leaves the
  object as it was: the \<open>return\<close> stands before the assignment to
  \<open>self.coefficients\<close>. So \<open>predict\<close> and \<open>score\<close> give after the call what they gave
  before it, and on a new object, whose coefficients are the empty list, they still
  fail.
\<close>

theorem fit_eeg_lstsq_keeps_coefficients:
  assumes "fit_eeg lib m X y ''lstsq'' = Inr (m', r)"
  shows "m' = m \<and> coefficients m' = coefficients m
    \<and> predict m' e = predict m e \<and> score m' e yv cw = score m e yv cw
    \<and> (coefficients m = PyList \<longrightarrow>
         coefficients m' = PyList \<and> predict m' e = Inl TypeError
         \<and> score m' e yv cw = Inl TypeError)"
  using assms
  by (auto simp: fit_eeg_def predict_def score_def split: sum.splits option.splits prod.splits)

text \<open>
  The witness: the call returns a tensor (not the least-squares coefficients
  \<open>[[0], [2]]\<close> of these data, the arguments being passed in the other order) and the
  object still holds the empty list.
\<close>

theorem fit_eeg_lstsq_keeps_coefficients_witness:
  "fit_eeg exact2 (init_ols 0) (Arr2 [[-1], [1], [-1], [1]]) (Arr2 [[-2], [2], [-2], [2]])
     ''lstsq'' = Inr (init_ols 0, Some [[0], [1 / 2]])
   \<and> coefficients (init_ols 0) = PyList
   \<and> predict (init_ols 0) [[5]] = Inl TypeError
   \<and> score (init_ols 0) [[5]] [[10]] True = Inl TypeError"
proof -
  have run: "fit_eeg exact2 (init_ols 0) (Arr2 [[-1], [1], [-1], [1]])
      (Arr2 [[-2], [2], [-2], [2]]) ''lstsq'' = Inr (init_ols 0, Some [[0], [1 / 2]])"
    by (simp add: fit_defs array_defs upt_2 upt_1)
  have "coefficients (init_ols 0) = PyList"
    by (simp add: init_ols_def)
  with fit_eeg_lstsq_keeps_coefficients [OF run, of "[[5]]" "[[10]]" True] run
  show ?thesis by simp
qed

section \<open>The correlation of a signal with itself\<close>

lemma ncols_rect: "rect c x \<Longrightarrow> x \<noteq> [] \<Longrightarrow> ncols x = c"
  by (cases x) (simp_all add: ncols_def rect_def)

lemma rect_sub_row: "rect c x \<Longrightarrow> length mu = c \<Longrightarrow> rect c (sub_row x mu)"
  by (simp add: rect_def sub_row_def list_all_iff)

lemma col_sub_row:
  assumes "rect c x" and "length mu = c" and "j < c"
  shows "col (sub_row x mu) j = map (\<lambda>a. a - mu ! j) (col x j)"
  using assms by (auto simp: col_def sub_row_def rect_def list_all_iff)

lemma rect_map_map: "rect c M \<Longrightarrow> rect c (map (map f) M)"
  by (simp add: rect_def list_all_iff)

lemma col_map_map:
  assumes "rect c M" and "j < c"
  shows "col (map (map f) M) j = map f (col M j)"
  using assms by (auto simp: col_def rect_def list_all_iff)

lemma rect_mul_elem:
  assumes "rect c a" and "rect c b"
  shows "rect c (mul_elem a b)"
proof -
  have "length (map2 (*) r s) = c" if "(r, s) \<in> set (zip a b)" for r s
  proof -
    have "length r = c" "length s = c"
      using that assms by (auto simp: rect_def list_all_iff dest: set_zip_leftD set_zip_rightD)
    then show ?thesis by simp
  qed
  then show ?thesis
    by (auto simp: rect_def mul_elem_def list_all_iff)
qed

lemma col_mul_elem:
  assumes "rect c a" and "rect c b" and "j < c"
  shows "col (mul_elem a b) j = map2 (*) (col a j) (col b j)"
proof -
  have "(map2 (*) r s) ! j = r ! j * s ! j" if "(r, s) \<in> set (zip a b)" for r s
  proof -
    have "length r = c" "length s = c"
      using that assms(1,2) by (auto simp: rect_def list_all_iff dest: set_zip_leftD set_zip_rightD)
    then show ?thesis using assms(3) by simp
  qed
  then show ?thesis
    by (auto simp: col_def mul_elem_def zip_map_map)
qed

lemma map2_same: "map2 f (map g xs) (map h xs) = map (\<lambda>x. f (g x) (h x)) xs"
  by (induction xs) simp_all

lemma mean_axis0_cols:
  assumes "rect c x" and "x \<noteq> []"
  shows "mean_axis0 x = map (\<lambda>j. mean_list (col x j)) [0..<c]"
  using assms by (simp add: mean_axis0_def sum_axis0_def mean_list_def ncols_rect length_col)

lemma std_axis0_cols:
  assumes "rect c x" and "x \<noteq> []"
  shows "std_axis0 x =
    map (\<lambda>j. sqrt (mean_list (map (\<lambda>a. (a - mean_list (col x j)) * (a - mean_list (col x j)))
      (col x j)))) [0..<c]"
proof -
  let ?mu = "mean_axis0 x"
  let ?S = "map (map (\<lambda>d. d * d)) (sub_row x ?mu)"
  have mu: "?mu = map (\<lambda>j. mean_list (col x j)) [0..<c]"
    using assms by (rule mean_axis0_cols)
  then have len: "length ?mu = c" by simp
  have r: "rect c ?S"
    by (intro rect_map_map rect_sub_row assms(1) len)
  have ne: "?S \<noteq> []"
    using assms(2) by (simp add: sub_row_def)
  have "col ?S j = map (\<lambda>a. (a - mean_list (col x j)) * (a - mean_list (col x j))) (col x j)"
    if "j < c" for j
    using that col_map_map [OF rect_sub_row [OF assms(1) len] that]
      col_sub_row [OF assms(1) len that] by (simp add: mu comp_def)
  then show ?thesis
    unfolding std_axis0_def mean_axis0_cols [OF r ne] by simp
qed

lemma vectorized_correlation_cols:
  assumes "rect c x" and "rect c y" and "length y = length x" and "x \<noteq> []"
  shows "vectorized_correlation x y = map (\<lambda>j. corr_col (col x j) (col y j)) [0..<c]"
proof -
  have yne: "y \<noteq> []" using assms(3,4) by auto
  let ?mx = "mean_axis0 x" and ?my = "mean_axis0 y"
  have mx: "?mx = map (\<lambda>j. mean_list (col x j)) [0..<c]"
    using assms(1,4) by (rule mean_axis0_cols)
  have my: "?my = map (\<lambda>j. mean_list (col y j)) [0..<c]"
    using assms(2) yne by (rule mean_axis0_cols)
  have lx: "length ?mx = c" and ly: "length ?my = c"
    by (simp_all add: mx my)
  let ?P = "mul_elem (sub_row x ?mx) (sub_row y ?my)"
  have rP: "rect c ?P"
    by (intro rect_mul_elem rect_sub_row assms(1,2) lx ly)
  have neP: "?P \<noteq> []"
    using assms(3,4) yne by (cases x; cases y) (simp_all add: mul_elem_def sub_row_def)
  have colP: "col ?P j = map2 (*) (map (\<lambda>a. a - mean_list (col x j)) (col x j))
       (map (\<lambda>b. b - mean_list (col y j)) (col y j))" if "j < c" for j
    using that col_mul_elem [OF rect_sub_row [OF assms(1) lx] rect_sub_row [OF assms(2) ly] that]
      col_sub_row [OF assms(1) lx that] col_sub_row [OF assms(2) ly that]
    by (simp add: mx my)
  have cov: "sum_axis0 ?P = map (\<lambda>j. sum_list (map2 (*)
       (map (\<lambda>a. a - mean_list (col x j)) (col x j))
       (map (\<lambda>b. b - mean_list (col y j)) (col y j)))) [0..<c]"
    using colP by (simp add: sum_axis0_def ncols_rect [OF rP neP])
  show ?thesis
    unfolding vectorized_correlation_def Let_def cov
      std_axis0_cols [OF assms(1,4)] std_axis0_cols [OF assms(2) yne]
    by (simp add: map2_same corr_col_def length_col del: upt_Suc cong: map_cong)
qed


lemma sum_list_map_uminus: "sum_list (map (\<lambda>a. - f a) u) = - sum_list (map f u)"
  for f :: "real \<Rightarrow> real"
  by (induction u) simp_all

lemma mean_list_uminus: "mean_list (map uminus u) = - mean_list u"
  using sum_list_map_uminus [of "\<lambda>a. a" u] by (simp add: mean_list_def)

lemma corr_col_neg: "corr_col u (map uminus u) = - corr_col u u"
proof -
  let ?m = "mean_list u"
  have "sum_list (map (\<lambda>a. (a - ?m) * (?m - a)) u) = - sum_list (map (\<lambda>a. (a - ?m) * (a - ?m)) u)"
    using sum_list_map_uminus [of "\<lambda>a. (a - ?m) * (a - ?m)" u]
    by (simp add: algebra_simps)
  moreover have "(\<lambda>a. (?m - a) * (?m - a)) = (\<lambda>a. (a - ?m) * (a - ?m))"
    by (auto simp: algebra_simps)
  ultimately show ?thesis
    by (simp add: corr_col_def mean_list_uminus map2_same comp_def)
qed

lemma corr_col_nonneg:
  assumes "2 \<le> length u"
  shows "0 \<le> corr_col u u"
proof -
  let ?m = "mean_list u"
  have "0 \<le> sum_list (map (\<lambda>a. (a - ?m) * (a - ?m)) u)"
    by (rule sum_list_nonneg) auto
  moreover have "0 < real_of_int (int (length u) - 1)"
    using assms by simp
  ultimately have "0 \<le> sum_list (map (\<lambda>a. (a - ?m) * (a - ?m)) u) / real_of_int (int (length u) - 1)"
    by simp
  then show ?thesis
    unfolding corr_col_def map2_same by (rule divide_nonneg_nonneg) simp
qed

lemma sum_list_all_zero: "\<forall>a\<in>set u. f a = (0::real) \<Longrightarrow> sum_list (map f u) = 0"
  by (induction u) simp_all

lemma corr_col_const:
  assumes "\<forall>a\<in>set u. a = k" and "u \<noteq> []"
  shows "corr_col u u = 0"
proof -
  have u: "u = replicate (length u) k"
    using assms(1) by (simp add: replicate_length_same)
  have "mean_list u = k"
    using assms(2) by (subst u) (simp add: mean_list_def sum_list_replicate)
  with assms(1) have "\<forall>a\<in>set u. (a - mean_list u) * (a - mean_list u) = 0"
    by simp
  then have "sum_list (map (\<lambda>a. (a - mean_list u) * (a - mean_list u)) u) = 0"
    by (rule sum_list_all_zero)
  then show ?thesis
    unfolding corr_col_def map2_same by simp
qed

lemma rect_neg_mat: "rect c x \<Longrightarrow> rect c (neg_mat x)"
  unfolding neg_mat_def by (rule rect_map_map)

lemma col_neg_mat: "rect c x \<Longrightarrow> j < c \<Longrightarrow> col (neg_mat x) j = map uminus (col x j)"
  unfolding neg_mat_def by (rule col_map_map)

lemmas corr_defs =
  vectorized_correlation_def std_axis0_def sub_row_def mul_elem_def neg_mat_def Let_def

text \<open>
  One channel with itself, for two samples or more: the sum of the squared deviations
  is divided by \<open>n - 1\<close> in the covariance and by \<open>n\<close> in numpy's standard deviations,
  so the value is \<open>n / (n - 1)\<close> times the variance over the square of the stabilized
  standard deviation.
\<close>

lemma corr_col_self_factor:
  assumes "2 \<le> length u"
  shows "corr_col u u =
    (real (length u) / (real (length u) - 1))
    * (mean_list (map (\<lambda>a. (a - mean_list u) * (a - mean_list u)) u)
       / ((sqrt (mean_list (map (\<lambda>a. (a - mean_list u) * (a - mean_list u)) u)) + 1 / 10 ^ 8)
          * (sqrt (mean_list (map (\<lambda>a. (a - mean_list u) * (a - mean_list u)) u)) + 1 / 10 ^ 8)))"
proof -
  let ?S = "sum_list (map (\<lambda>a. (a - mean_list u) * (a - mean_list u)) u)"
  have n: "real (length u) \<noteq> 0" "real (length u) - 1 \<noteq> 0"
    using assms by auto
  have "real_of_int (int (length u) - 1) = real (length u) - 1"
    by simp
  then show ?thesis
    unfolding corr_col_def map2_same mean_list_def using n
    by (simp add: field_simps)
qed

text \<open>
  The correlation with \<open>-x\<close> is the negative of the correlation with \<open>x\<close>; the latter
  is never negative, and it is 0 on a channel whose samples are all equal, where the
  \<open>1e-8\<close> added to the standard deviations leaves \<open>0 / 1e-16\<close>.
\<close>

lemma vectorized_correlation_negation:
  assumes "rect c x" and "2 \<le> length x"
  shows "vectorized_correlation x (neg_mat x) = map uminus (vectorized_correlation x x)
     \<and> length (vectorized_correlation x x) = c
     \<and> (\<forall>j<c. 0 \<le> vectorized_correlation x x ! j)
     \<and> (\<forall>j<c. (\<forall>i<length x. x ! i ! j = x ! 0 ! j) \<longrightarrow> vectorized_correlation x x ! j = 0)"
proof -
  have ne: "x \<noteq> []" using assms(2) by auto
  have self: "vectorized_correlation x x = map (\<lambda>j. corr_col (col x j) (col x j)) [0..<c]"
    using assms(1) ne by (intro vectorized_correlation_cols) simp_all
  have neg: "vectorized_correlation x (neg_mat x)
      = map (\<lambda>j. corr_col (col x j) (col (neg_mat x) j)) [0..<c]"
    using assms(1) ne by (intro vectorized_correlation_cols rect_neg_mat) (simp_all add: neg_mat_def)
  have "vectorized_correlation x (neg_mat x) = map uminus (vectorized_correlation x x)"
    unfolding self neg using assms(1) by (simp add: col_neg_mat corr_col_neg)
  moreover have "\<forall>j<c. 0 \<le> vectorized_correlation x x ! j"
    using assms(2) by (simp add: self corr_col_nonneg length_col)
  moreover have "vectorized_correlation x x ! j = 0"
    if "j < c" and "\<forall>i<length x. x ! i ! j = x ! 0 ! j" for j
  proof -
    have "\<forall>a\<in>set (col x j). a = x ! 0 ! j"
      using that(2) by (auto simp: col_def in_set_conv_nth)
    moreover have "col x j \<noteq> []"
      using ne by (simp add: col_def)
    ultimately have "corr_col (col x j) (col x j) = 0"
      by (rule corr_col_const)
    then show ?thesis using that(1) by (simp add: self)
  qed
  ultimately show ?thesis by (simp add: self)
qed

lemma vectorized_correlation_constant_channel:
  "vectorized_correlation [[1], [1]] [[1], [1]] = [0]"
  by (simp add: corr_defs array_defs upt_1)

text \<open>
  C4. The claim: for every \<open>x\<close> with at least two samples the correlation of \<open>x\<close> with
  itself is 1 in every channel, to within \<open>1e-8\<close>, and with \<open>-x\<close> it is \<open>-1\<close>. The code
  names its covariance \<open>bessel_corrected_covariance\<close> and divides it by \<open>n - 1\<close>, but
  divides by the standard deviations of numpy, which divide by \<open>n\<close>. On the two samples
  0 and 2 of one channel the covariance is \<open>2 / 1\<close> and both standard deviations are
  \<open>1 + 1e-8\<close>: the code returns \<open>2 / (1 + 1e-8)^2\<close>, above 1.9, for \<open>x\<close> with itself and
  the negative of that for \<open>x\<close> with \<open>-x\<close>, neither within \<open>1e-8\<close> of 1 or of \<open>-1\<close>.
\<close>

theorem vectorized_correlation_self_is_not_one:
  "vectorized_correlation [[0], [2]] [[0], [2]]
     = [2 / ((1 + 1 / 10 ^ 8) * (1 + 1 / 10 ^ 8))]
   \<and> vectorized_correlation [[0], [2]] (neg_mat [[0], [2]])
     = [- (2 / ((1 + 1 / 10 ^ 8) * (1 + 1 / 10 ^ 8)))]
   \<and> (19 / 10 :: real) < 2 / ((1 + 1 / 10 ^ 8) * (1 + 1 / 10 ^ 8))
   \<and> \<not> list_all (\<lambda>r. \<bar>r - 1\<bar> \<le> 1 / 10 ^ 8) (vectorized_correlation [[0], [2]] [[0], [2]])
   \<and> \<not> list_all (\<lambda>r. \<bar>r - (- 1)\<bar> \<le> 1 / 10 ^ 8)
         (vectorized_correlation [[0], [2]] (neg_mat [[0], [2]]))"
  by (simp add: corr_defs array_defs upt_1)

section \<open>Ties between penalties\<close>

lemma argmin_scan_first:
  assumes "is_first_min ps idx" and "mp = ps ! idx" and "i = length ps"
  shows "is_first_min (ps @ xs) (argmin_scan mp idx i xs)"
  using assms
proof (induction xs arbitrary: ps mp idx i)
  case Nil
  then show ?case by simp
next
  case (Cons x xs)
  show ?case
  proof (cases "x < mp")
    case True
    have "is_first_min (ps @ [x]) i"
      using Cons.prems True
      by (auto simp: is_first_min_def nth_append less_Suc_eq intro: less_le_trans)
    from Cons.IH [OF this, of x "Suc i"] Cons.prems(3) True
    show ?thesis by simp
  next
    case False
    have "is_first_min (ps @ [x]) idx"
      using Cons.prems False
      by (auto simp: is_first_min_def nth_append less_Suc_eq)
    from Cons.IH [OF this, of mp "Suc i"] Cons.prems False
    show ?thesis by (simp add: is_first_min_def nth_append)
  qed
qed

lemma argmin_first:
  assumes "xs \<noteq> []"
  shows "\<exists>i. argmin xs = Inr i \<and> is_first_min xs i"
proof -
  obtain x rest where xs: "xs = x # rest"
    using assms by (cases xs) auto
  have "is_first_min [x] 0"
    by (simp add: is_first_min_def)
  from argmin_scan_first [OF this, of x 1 rest]
  show ?thesis by (simp add: xs argmin_def)
qed

lemma argmax_scan_first:
  assumes "is_first_max ps idx" and "mp = ps ! idx" and "i = length ps"
  shows "is_first_max (ps @ xs) (argmax_scan mp idx i xs)"
  using assms
proof (induction xs arbitrary: ps mp idx i)
  case Nil
  then show ?case by simp
next
  case (Cons x xs)
  show ?case
  proof (cases "mp < x")
    case True
    have "is_first_max (ps @ [x]) i"
      using Cons.prems True
      by (auto simp: is_first_max_def nth_append less_Suc_eq intro: le_less_trans)
    from Cons.IH [OF this, of x "Suc i"] Cons.prems(3) True
    show ?thesis by simp
  next
    case False
    have "is_first_max (ps @ [x]) idx"
      using Cons.prems False
      by (auto simp: is_first_max_def nth_append less_Suc_eq)
    from Cons.IH [OF this, of mp "Suc i"] Cons.prems False
    show ?thesis by (simp add: is_first_max_def nth_append)
  qed
qed

lemma argmax_first:
  assumes "xs \<noteq> []"
  shows "\<exists>i. argmax xs = Inr i \<and> is_first_max xs i"
proof -
  obtain x rest where xs: "xs = x # rest"
    using assms by (cases xs) auto
  have "is_first_max [x] 0"
    by (simp add: is_first_max_def)
  from argmax_scan_first [OF this, of x 1 rest]
  show ?thesis by (simp add: xs argmax_def)
qed

lemma first_min_lowest_tied:
  assumes "is_first_min xs i" and "sorted alpha_space" and "length xs = length alpha_space"
  shows "lowest_tied alpha_space xs i"
  unfolding lowest_tied_def
proof (intro allI impI)
  fix j assume j: "j < length xs" "xs ! j = xs ! i"
  have "i \<le> j"
  proof (rule ccontr)
    assume "\<not> i \<le> j"
    then have "xs ! i < xs ! j" using assms(1) by (simp add: is_first_min_def)
    with j(2) show False by simp
  qed
  then show "i \<le> j \<and> alpha_space ! i \<le> alpha_space ! j"
    using assms(2,3) j(1) by (simp add: sorted_nth_mono)
qed

lemma first_max_lowest_tied:
  assumes "is_first_max xs i" and "sorted alpha_space" and "length xs = length alpha_space"
  shows "lowest_tied alpha_space xs i"
  unfolding lowest_tied_def
proof (intro allI impI)
  fix j assume j: "j < length xs" "xs ! j = xs ! i"
  have "i \<le> j"
  proof (rule ccontr)
    assume "\<not> i \<le> j"
    then have "xs ! j < xs ! i" using assms(1) by (simp add: is_first_max_def)
    with j(2) show False by simp
  qed
  then show "i \<le> j \<and> alpha_space ! i \<le> alpha_space ! j"
    using assms(2,3) j(1) by (simp add: sorted_nth_mono)
qed

lemma traverse_Inr:
  "traverse f xs = Inr ys \<Longrightarrow> length ys = length xs \<and> (\<forall>k<length xs. f (xs ! k) = Inr (ys ! k))"
proof (induction xs arbitrary: ys)
  case Nil
  then show ?case by simp
next
  case (Cons x xs)
  then show ?case
    by (auto simp: nth_Cons split: sum.splits nat.splits)
qed

lemma traverse_total:
  "(\<And>x. x \<in> set xs \<Longrightarrow> \<exists>y. f x = Inr y) \<Longrightarrow> \<exists>ys. traverse f xs = Inr ys"
proof (induction xs)
  case Nil
  then show ?case by simp
next
  case (Cons x xs)
  then obtain y ys where "f x = Inr y" "traverse f xs = Inr ys"
    by (metis list.set_intros(1,2))
  then show ?case by simp
qed

lemma alpha_logspace_sorted: "sorted alpha_logspace \<and> length alpha_logspace = 10"
proof -
  have "10 powr (- 5 + real i * (15 / 9)) \<le> (10::real) powr (- 5 + real j * (15 / 9))"
    if "i \<le> j" for i j :: nat
    using that by (intro powr_mono) simp_all
  then show ?thesis
    by (simp add: alpha_logspace_def sorted_iff_nth_mono del: upt_Suc)
qed


lemma traverse_get:
  "(\<And>i. i \<in> set is \<Longrightarrow> i < length xs) \<Longrightarrow> traverse (get xs) is = Inr (map ((!) xs) is)"
  by (induction "is") (simp_all add: get_def)

lemma traverse_argmin:
  assumes "rect n R" and "0 < n"
  shows "\<exists>irs. traverse argmin R = Inr irs \<and> length irs = length R
     \<and> (\<forall>k<length R. is_first_min (R ! k) (irs ! k)) \<and> (\<forall>i\<in>set irs. i < n)"
proof -
  have row: "\<exists>i. argmin r = Inr i \<and> is_first_min r i" if "r \<in> set R" for r
  proof -
    have "length r = n" using that assms(1) by (simp add: rect_def list_all_iff)
    then have "r \<noteq> []" using assms(2) by auto
    then show ?thesis by (rule argmin_first)
  qed
  then obtain irs where irs: "traverse argmin R = Inr irs"
    using traverse_total [of R argmin] by blast
  note t = traverse_Inr [OF irs]
  have fm: "is_first_min (R ! k) (irs ! k)" if "k < length R" for k
    using row [of "R ! k"] t that by auto
  have "i < n" if mem: "i \<in> set irs" for i
  proof -
    obtain k where k: "k < length R" "irs ! k = i"
      using mem t by (auto simp: in_set_conv_nth)
    have "length (R ! k) = n"
      using k(1) assms(1) by (simp add: rect_def list_all_iff)
    with fm [OF k(1)] k(2) show ?thesis by (simp add: is_first_min_def)
  qed
  with irs t fm show ?thesis by blast
qed

lemma traverse_argmax:
  assumes "rect n C" and "0 < n"
  shows "\<exists>ics. traverse argmax C = Inr ics \<and> length ics = length C
     \<and> (\<forall>k<length C. is_first_max (C ! k) (ics ! k)) \<and> (\<forall>i\<in>set ics. i < n)"
proof -
  have row: "\<exists>i. argmax r = Inr i \<and> is_first_max r i" if "r \<in> set C" for r
  proof -
    have "length r = n" using that assms(1) by (simp add: rect_def list_all_iff)
    then have "r \<noteq> []" using assms(2) by auto
    then show ?thesis by (rule argmax_first)
  qed
  then obtain ics where ics: "traverse argmax C = Inr ics"
    using traverse_total [of C argmax] by blast
  note t = traverse_Inr [OF ics]
  have fm: "is_first_max (C ! k) (ics ! k)" if "k < length C" for k
    using row [of "C ! k"] t that by auto
  have "i < n" if mem: "i \<in> set ics" for i
  proof -
    obtain k where k: "k < length C" "ics ! k = i"
      using mem t by (auto simp: in_set_conv_nth)
    have "length (C ! k) = n"
      using k(1) assms(1) by (simp add: rect_def list_all_iff)
    with fm [OF k(1)] k(2) show ?thesis by (simp add: is_first_max_def)
  qed
  with ics t fm show ?thesis by blast
qed

text \<open>
  C6. Whatever the channel-reduced scores \<open>R\<close> (errors) and \<open>C\<close> (correlations), one row
  per timepoint or layer and one column per penalty of the grid, the selection
  returns, per timepoint and on the averages over the timepoints, the penalty at the
  first index of the minimal error and at the first index of the maximal correlation:
  of the indices that tie it is the lowest, and the grid being ascending (as
  \<open>np.logspace(-5, 10, 10)\<close> is, \<open>alpha_logspace_sorted\<close>) its penalty is the smallest.
  Both files select with these same lines.
\<close>

theorem select_best_first_of_ties:
  assumes "alpha_space \<noteq> []" and "sorted alpha_space"
    and "rect (length alpha_space) R" and "rect (length alpha_space) C"
  shows "\<exists>sel. select_best alpha_space R C = Inr sel
     \<and> length (best_alpha_rmse sel) = length R \<and> length (best_alpha_corr sel) = length C
     \<and> (\<forall>tp<length R. \<exists>i. is_first_min (R ! tp) i \<and> lowest_tied alpha_space (R ! tp) i
           \<and> best_alpha_rmse sel ! tp = [alpha_space ! i])
     \<and> (\<forall>tp<length C. \<exists>i. is_first_max (C ! tp) i \<and> lowest_tied alpha_space (C ! tp) i
           \<and> best_alpha_corr sel ! tp = [alpha_space ! i])
     \<and> (\<exists>i. is_first_min (mean_rows (length alpha_space) R) i
           \<and> lowest_tied alpha_space (mean_rows (length alpha_space) R) i
           \<and> best_alpha_a_rmse sel = alpha_space ! i)
     \<and> (\<exists>i. is_first_max (mean_rows (length alpha_space) C) i
           \<and> lowest_tied alpha_space (mean_rows (length alpha_space) C) i
           \<and> best_alpha_a_corr sel = alpha_space ! i)"
proof -
  let ?n = "length alpha_space"
  have n: "0 < ?n" using assms(1) by simp
  obtain irs where irs: "traverse argmin R = Inr irs" "length irs = length R"
      "\<forall>k<length R. is_first_min (R ! k) (irs ! k)" "\<forall>i\<in>set irs. i < ?n"
    using traverse_argmin [OF assms(3) n] by blast
  obtain ics where ics: "traverse argmax C = Inr ics" "length ics = length C"
      "\<forall>k<length C. is_first_max (C ! k) (ics ! k)" "\<forall>i\<in>set ics. i < ?n"
    using traverse_argmax [OF assms(4) n] by blast
  have gr: "traverse (get alpha_space) irs = Inr (map ((!) alpha_space) irs)"
    using irs(4) by (intro traverse_get) simp
  have gc: "traverse (get alpha_space) ics = Inr (map ((!) alpha_space) ics)"
    using ics(4) by (intro traverse_get) simp
  have mr: "mean_rows ?n R \<noteq> []" and mc: "mean_rows ?n C \<noteq> []"
    using n by (simp_all add: mean_rows_def)
  obtain ia where ia: "argmin (mean_rows ?n R) = Inr ia" "is_first_min (mean_rows ?n R) ia"
    using argmin_first [OF mr] by blast
  obtain ic where ic: "argmax (mean_rows ?n C) = Inr ic" "is_first_max (mean_rows ?n C) ic"
    using argmax_first [OF mc] by blast
  have lr: "length (mean_rows ?n R) = ?n" and lc: "length (mean_rows ?n C) = ?n"
    by (simp_all add: mean_rows_def)
  have ia_lt: "ia < ?n" using ia(2) lr by (simp add: is_first_min_def)
  have ic_lt: "ic < ?n" using ic(2) lc by (simp add: is_first_max_def)
  let ?sel = "\<lparr>best_alpha_rmse = map (\<lambda>a. [a]) (map ((!) alpha_space) irs),
                best_alpha_corr = map (\<lambda>a. [a]) (map ((!) alpha_space) ics),
                best_alpha_a_rmse = alpha_space ! ia,
                best_alpha_a_corr = alpha_space ! ic\<rparr>"
  have run: "select_best alpha_space R C = Inr ?sel"
    using irs(1) ics(1) gr gc ia(1) ic(1) ia_lt ic_lt
    by (simp add: select_best_def get_def Let_def)
  have rows_r: "\<exists>i. is_first_min (R ! tp) i \<and> lowest_tied alpha_space (R ! tp) i
           \<and> best_alpha_rmse ?sel ! tp = [alpha_space ! i]" if "tp < length R" for tp
  proof -
    have "length (R ! tp) = ?n"
      using that assms(3) by (simp add: rect_def list_all_iff)
    with irs(3) that assms(2) have "lowest_tied alpha_space (R ! tp) (irs ! tp)"
      by (intro first_min_lowest_tied) simp_all
    with irs(2,3) that show ?thesis by auto
  qed
  have rows_c: "\<exists>i. is_first_max (C ! tp) i \<and> lowest_tied alpha_space (C ! tp) i
           \<and> best_alpha_corr ?sel ! tp = [alpha_space ! i]" if "tp < length C" for tp
  proof -
    have "length (C ! tp) = ?n"
      using that assms(4) by (simp add: rect_def list_all_iff)
    with ics(3) that assms(2) have "lowest_tied alpha_space (C ! tp) (ics ! tp)"
      by (intro first_max_lowest_tied) simp_all
    with ics(2,3) that show ?thesis by auto
  qed
  have ar: "lowest_tied alpha_space (mean_rows ?n R) ia"
    using ia(2) assms(2) lr by (rule first_min_lowest_tied)
  have ac: "lowest_tied alpha_space (mean_rows ?n C) ic"
    using ic(2) assms(2) lc by (rule first_max_lowest_tied)
  show ?thesis
  proof (intro exI [of _ ?sel] conjI)
    show "select_best alpha_space R C = Inr ?sel" by (rule run)
    show "length (best_alpha_rmse ?sel) = length R" using irs(2) by simp
    show "length (best_alpha_corr ?sel) = length C" using ics(2) by simp
    show "\<forall>tp<length R. \<exists>i. is_first_min (R ! tp) i \<and> lowest_tied alpha_space (R ! tp) i
           \<and> best_alpha_rmse ?sel ! tp = [alpha_space ! i]"
      using rows_r by blast
    show "\<forall>tp<length C. \<exists>i. is_first_max (C ! tp) i \<and> lowest_tied alpha_space (C ! tp) i
           \<and> best_alpha_corr ?sel ! tp = [alpha_space ! i]"
      using rows_c by blast
    show "\<exists>i. is_first_min (mean_rows ?n R) i \<and> lowest_tied alpha_space (mean_rows ?n R) i
           \<and> best_alpha_a_rmse ?sel = alpha_space ! i"
      using ia(2) ar by auto
    show "\<exists>i. is_first_max (mean_rows ?n C) i \<and> lowest_tied alpha_space (mean_rows ?n C) i
           \<and> best_alpha_a_corr ?sel = alpha_space ! i"
      using ic(2) ac by auto
  qed
qed

lemma upt_3: "[0..<3] = [0, 1, 2]"
  by (simp add: upt_rec)

text \<open>
  The witness: a grid of three penalties and two timepoints. Every row has a tie, and
  so have both averages (\<open>[2.5, 2, 2]\<close> and \<open>[0.5, 2.5, 2.5]\<close>).
\<close>

theorem select_best_first_of_ties_witness:
  "[1, 10, 100::real] \<noteq> [] \<and> sorted [1, 10, 100::real]
   \<and> rect (length [1, 10, 100::real]) [[2, 1, 1], [3, 3, 3::real]]
   \<and> rect (length [1, 10, 100::real]) [[0, 5, 5], [1, 0, 0::real]]
   \<and> select_best [1, 10, 100] [[2, 1, 1], [3, 3, 3]] [[0, 5, 5], [1, 0, 0]]
       = Inr \<lparr>best_alpha_rmse = [[10], [1]], best_alpha_corr = [[10], [1]],
              best_alpha_a_rmse = 10, best_alpha_a_corr = 10\<rparr>"
proof -
  have run: "select_best [1, 10, 100] [[2, 1, 1], [3, 3, 3]] [[0, 5, 5], [1, 0, 0]]
       = Inr \<lparr>best_alpha_rmse = [[10], [1]], best_alpha_corr = [[10], [1]],
              best_alpha_a_rmse = 10, best_alpha_a_corr = 10\<rparr>"
    by (simp add: select_best_def argmin_def argmax_def get_def mean_rows_def col_def upt_3
        Let_def)
  have h: "[1, 10, 100::real] \<noteq> []" "sorted [1, 10, 100::real]"
    "rect (length [1, 10, 100::real]) [[2, 1, 1], [3, 3, 3::real]]"
    "rect (length [1, 10, 100::real]) [[0, 5, 5], [1, 0, 0::real]]"
    by (simp_all add: rect_def)
  from select_best_first_of_ties [OF h] run h show ?thesis by simp
qed

text \<open>
  Both searches select with \<open>select_best\<close>: the EEG search on the means over the
  channels of the scores it stores, the CNN search on the averages weighted by the
  explained variances.
\<close>

lemma tuning_eeg_selects:
  assumes "hyperparameter_tuning_eeg lib n_channels alpha_space X_train X_val y_train y_validation
      = Inr out"
  shows "select_best alpha_space (map (map mean_list) (rmse_score out))
           (map (map mean_list) (correlation out))
         = Inr (selection.truncate out)"
  using assms
  by (auto simp: hyperparameter_tuning_eeg_def Let_def with_scores_def selection.truncate_def
      split: sum.splits)

lemma tuning_cnn_selects:
  assumes "hyperparameter_tuning_cnn lib alpha_space X_train X_val layers = Inr out"
  shows "\<exists>scores R C.
           traverse (layer_scores lib alpha_space X_train X_val) layers = Inr scores
           \<and> traverse (\<lambda>(ev, s). weighted_avg ev s)
                 (zip (map (\<lambda>l. snd (snd l)) layers) (map fst scores)) = Inr R
           \<and> traverse (\<lambda>(ev, s). weighted_avg ev s)
                 (zip (map (\<lambda>l. snd (snd l)) layers) (map snd scores)) = Inr C
           \<and> select_best alpha_space R C = Inr (selection.truncate out)"
  using assms
  by (auto simp: hyperparameter_tuning_cnn_def Let_def with_scores_def selection.truncate_def
      split: sum.splits if_splits)

section \<open>What the search stores\<close>

lemmas search_defs =
  hyperparameter_tuning_cnn_def hyperparameter_tuning_eeg_def layer_scores_def weighted_avg_def
  store_cell_def store_channels_def cell_cnn_def cell_eeg_def scores_of_def fit_try_cnn_def
  fit_try_eeg_def predict_def score_def squeeze_def select_best_def argmin_def argmax_def get_def
  mean_rows_def mean_list_def with_scores_def

text \<open>
  C7. The claim: after the sweep of one feature the entries \<open>rmse_score\<close> and
  \<open>correlation\<close> of the output hold the scores of every timepoint or layer, penalty and
  channel. The EEG file stores its whole arrays. The CNN file allocates \<open>rmse\<close> and
  \<open>corr\<close> anew for each layer, keeps them in \<open>rmse_scores\<close> and \<open>corr_scores\<close>, and
  then stores \<open>rmse\<close> and \<open>corr\<close>: the arrays of the last layer. With two layers, errors
  \<open>[0, 0]\<close> in the first and \<open>[1, 1]\<close> in the second, its output holds \<open>[[[1, 1]]]\<close>; the
  scores it computed, and the EEG search on the same data, hold both.
\<close>

theorem tuning_cnn_keeps_last_layer_only:
  "hyperparameter_tuning_cnn exact2 [0] [[-1], [1], [-1], [1]] [[-1], [1]]
      [([[-1, -2], [1, 2], [-1, -2], [1, 2]], [[-1, -2], [1, 2]], [1, 1]),
       ([[1, 1], [1, 1], [1, 1], [1, 1]], [[0, 2], [2, 0]], [1, 1])]
     = Inr \<lparr>best_alpha_rmse = [[0], [0]], best_alpha_corr = [[0], [0]],
            best_alpha_a_rmse = 0, best_alpha_a_corr = 0,
            rmse_score = [[[1, 1]]], correlation = [[[0, 0]]]\<rparr>
   \<and> map_sum id (map fst)
       (traverse (layer_scores exact2 [0] [[-1], [1], [-1], [1]] [[-1], [1]])
         [([[-1, -2], [1, 2], [-1, -2], [1, 2]], [[-1, -2], [1, 2]], [1, 1]),
          ([[1, 1], [1, 1], [1, 1], [1, 1]], [[0, 2], [2, 0]], [1, 1])])
     = Inr [[[0, 0]], [[1, 1]]]
   \<and> map_sum id rmse_score
       (hyperparameter_tuning_eeg exact2 2 [0] [[-1], [1], [-1], [1]] [[-1], [1]]
         [[[-1, -2], [1, 2], [-1, -2], [1, 2]], [[1, 1], [1, 1], [1, 1], [1, 1]]]
         [[[-1, -2], [1, 2]], [[0, 2], [2, 0]]])
     = Inr [[[0, 0]], [[1, 1]]]"
  by (simp add: search_defs fit_defs corr_defs array_defs upt_2 upt_1)

text \<open>In general: a CNN search that returns stored the scores of its last layer, no more.\<close>

lemma tuning_cnn_last_layer:
  assumes "hyperparameter_tuning_cnn lib alpha_space X_train X_val layers = Inr out"
  shows "layers \<noteq> [] \<and> length (rmse_score out) = 1 \<and> length (correlation out) = 1
     \<and> layer_scores lib alpha_space X_train X_val (last layers)
         = Inr (hd (rmse_score out), hd (correlation out))"
proof -
  from assms obtain scores where sc: "traverse (layer_scores lib alpha_space X_train X_val) layers = Inr scores"
    and ne: "scores \<noteq> []"
    and r: "rmse_score out = [fst (last scores)]" and c: "correlation out = [snd (last scores)]"
    by (auto simp: hyperparameter_tuning_cnn_def Let_def with_scores_def split: sum.splits if_splits)
  note t = traverse_Inr [OF sc]
  have l: "layers \<noteq> []" using t ne by auto
  then have "layer_scores lib alpha_space X_train X_val (layers ! (length layers - 1))
      = Inr (scores ! (length layers - 1))"
    using t by simp
  then have "layer_scores lib alpha_space X_train X_val (last layers) = Inr (last scores)"
    using l ne t by (simp add: last_conv_nth)
  with l r c show ?thesis by simp
qed

text \<open>And an EEG search that returns stored every cell it computed.\<close>

lemma tuning_eeg_full_tensor:
  assumes "hyperparameter_tuning_eeg lib n_channels alpha_space X_train X_val y_train y_validation
      = Inr out"
  shows "length (rmse_score out) = length y_train \<and> length (correlation out) = length y_train
     \<and> (\<forall>tp<length y_train.
          length (rmse_score out ! tp) = length alpha_space
          \<and> length (correlation out ! tp) = length alpha_space
          \<and> (\<forall>a<length alpha_space.
               store_cell n_channels
                 (cell_eeg lib X_train X_val (y_train ! tp) (y_validation ! tp) (alpha_space ! a))
                 = Inr (rmse_score out ! tp ! a, correlation out ! tp ! a)
               \<and> length (rmse_score out ! tp ! a) = n_channels
               \<and> length (correlation out ! tp ! a) = n_channels))"
proof -
  let ?row = "\<lambda>tp. case get y_validation tp of
                      Inl e \<Rightarrow> Inl e
                    | Inr y_val_tp \<Rightarrow>
                        traverse
                          (\<lambda>a. store_cell n_channels
                                 (cell_eeg lib X_train X_val (y_train ! tp) y_val_tp a))
                          alpha_space"
  from assms obtain cells where cells: "traverse ?row [0..<length y_train] = Inr cells"
    and r: "rmse_score out = map (map fst) cells" and c: "correlation out = map (map snd) cells"
    by (auto simp: hyperparameter_tuning_eeg_def Let_def with_scores_def split: sum.splits)
  note t = traverse_Inr [OF cells]
  have len: "length cells = length y_train" using t by simp
  have row: "length (cells ! tp) = length alpha_space
      \<and> (\<forall>a<length alpha_space.
            store_cell n_channels
              (cell_eeg lib X_train X_val (y_train ! tp) (y_validation ! tp) (alpha_space ! a))
              = Inr (cells ! tp ! a))" if tp: "tp < length y_train" for tp
  proof -
    have "?row ([0..<length y_train] ! tp) = Inr (cells ! tp)"
      using t tp by (simp del: nth_upt)
    moreover have "[0..<length y_train] ! tp = tp"
      using tp by simp
    ultimately have "?row tp = Inr (cells ! tp)"
      by (simp only:)
    then have "traverse (\<lambda>a. store_cell n_channels
         (cell_eeg lib X_train X_val (y_train ! tp) (y_validation ! tp) a)) alpha_space
         = Inr (cells ! tp)"
      by (auto simp: get_def split: sum.splits if_splits)
    from traverse_Inr [OF this] show ?thesis by simp
  qed
  have store: "length rr = n \<and> length cc = n" if "store_cell n x = Inr (rr, cc)" for n x rr cc
    using that
    by (auto simp: store_cell_def store_channels_def split: sum.splits prod.splits if_splits)
  show ?thesis
  proof (intro conjI allI impI)
    show "length (rmse_score out) = length y_train" using r len by simp
    show "length (correlation out) = length y_train" using c len by simp
  next
    fix tp assume tp: "tp < length y_train"
    show "length (rmse_score out ! tp) = length alpha_space"
      using row [OF tp] r len tp by simp
    show "length (correlation out ! tp) = length alpha_space"
      using row [OF tp] c len tp by simp
    fix a assume a: "a < length alpha_space"
    have eq: "rmse_score out ! tp ! a = fst (cells ! tp ! a)"
      "correlation out ! tp ! a = snd (cells ! tp ! a)"
      using row [OF tp] r c len tp a by simp_all
    show cell: "store_cell n_channels
         (cell_eeg lib X_train X_val (y_train ! tp) (y_validation ! tp) (alpha_space ! a))
         = Inr (rmse_score out ! tp ! a, correlation out ! tp ! a)"
      using row [OF tp] a eq by simp
    show "length (rmse_score out ! tp ! a) = n_channels"
      using store [OF cell] by simp
    show "length (correlation out ! tp ! a) = n_channels"
      using store [OF cell] by simp
  qed
qed


section \<open>The direction of the permuted statistic\<close>

text \<open>
  C3. The claim: every permuted row of \<open>stat_map\<close> is the difference of the group means
  of the sign-flipped data in the direction of row 0, video minus image. The code
  computes row 0 as \<open>mean_orig_vid - mean_orig_img\<close> and the permuted rows as
  \<open>mean_orig_img - mean_orig_vid\<close>. With one subject per group, scores \<open>[3, 1]\<close> (video)
  and \<open>[1, 0]\<close> (image), and a generator that draws the sign \<open>+1\<close> every time, the data
  of permutation 1 are the observed data: row 0 is \<open>[2, 1]\<close> and row 1 is \<open>[-2, -1]\<close>.
\<close>

theorem permuted_statistic_is_image_minus_video:
  "stat_map (\<lambda>g n. (replicate n 1, g)) 2 2 [[3, 1]] [[1, 0]] ()
     = Inr ([[2, 1], [- 2, - 1]], ())
   \<and> t_stat_observed 2 [[3, 1]] [[1, 0]] = [2, 1]
   \<and> t_stat_permuted 2 [[3, 1]] [[1, 0]] [1] [1] = Inr [- 2, - 1]"
  by (simp add: stat_map_def t_stat_observed_def t_stat_permuted_def flip_rows_def mean_rows_def
      col_def upt_2 Let_def)

text \<open>
  In general: when every sign drawn is \<open>+1\<close> the permuted row is the negative of the
  observed row, whatever the data.
\<close>

lemma flip_rows_ones: "flip_rows M (replicate (length M) 1) = Inr M"
proof -
  have "map2 (\<lambda>r s. map (\<lambda>v. v * s) r) M (replicate (length M) (1::real)) = M"
    by (induction M) simp_all
  then show ?thesis by (simp add: flip_rows_def)
qed

lemma permuted_with_unit_signs:
  "t_stat_permuted timepoints vid img (replicate (length vid) 1) (replicate (length img) 1)
     = Inr (map uminus (t_stat_observed timepoints vid img))"
  by (simp add: t_stat_permuted_def t_stat_observed_def flip_rows_ones mean_rows_def Let_def
      map2_same)

section \<open>The positions of the confidence interval\<close>

lemma ci_upper_lt_iff: "ci_upper n < n \<longleftrightarrow> 40 \<le> n"
proof -
  have "0 \<le> \<lceil>real n * (975 / 1000)\<rceil>"
    by simp
  then have "ci_upper n < n \<longleftrightarrow> \<lceil>real n * (975 / 1000)\<rceil> < int n"
    unfolding ci_upper_def by linarith
  also have "\<dots> \<longleftrightarrow> real n * (975 / 1000) \<le> real_of_int (int n) - 1"
    by (simp only: ceiling_less_iff)
  also have "\<dots> \<longleftrightarrow> 40 \<le> n"
    by auto
  finally show ?thesis .
qed

lemma ci_lower_le_upper: "ci_lower n \<le> ci_upper n"
  unfolding ci_lower_def ci_upper_def
  by (intro nat_mono ceiling_mono) simp

lemma rank_strict:
  fixes xs :: "real list"
  defines "rk \<equiv> \<lambda>x. real (length (filter (\<lambda>y. y < x) xs))
               + (real (length (filter (\<lambda>y. y = x) xs)) + 1) / 2"
  assumes "a \<in> set xs" and "b \<in> set xs" and "a < b"
  shows "rk a < rk b"
proof -
  have ea: "1 \<le> length (filter (\<lambda>y. y = a) xs)"
    using assms(2) by (auto simp: Suc_le_eq filter_empty_conv)
  have eb: "1 \<le> length (filter (\<lambda>y. y = b) xs)"
    using assms(3) by (auto simp: Suc_le_eq filter_empty_conv)
  have "length (filter (\<lambda>y. y < a) xs) + length (filter (\<lambda>y. y = a) xs)
      = length (filter (\<lambda>y. y \<le> a) xs)"
    by (induction xs) auto
  also have "\<dots> \<le> length (filter (\<lambda>y. y < b) xs)"
    using assms(4) by (induction xs) auto
  finally have "real (length (filter (\<lambda>y. y < a) xs)) + real (length (filter (\<lambda>y. y = a) xs))
      \<le> real (length (filter (\<lambda>y. y < b) xs))"
    by (metis of_nat_add of_nat_le_iff)
  with ea eb show ?thesis
    unfolding rk_def by (simp add: field_simps)
qed

lemma argsort_rankdata: "map ((!) xs) (argsort (rankdata xs)) = sort xs"
proof -
  let ?ranks = "rankdata xs" and ?n = "length xs"
  let ?idx = "argsort ?ranks"
  have len: "length ?ranks = ?n" by (simp add: rankdata_def)
  have set_idx: "set ?idx = {0..<?n}"
    by (simp add: argsort_def len)
  have srt: "sorted (map (\<lambda>i. ?ranks ! i) ?idx)"
    unfolding argsort_def by (rule sorted_sort_key)
  have mono: "xs ! i \<le> xs ! j" if "i \<in> set ?idx" "j \<in> set ?idx" "?ranks ! i \<le> ?ranks ! j" for i j
  proof (rule ccontr)
    assume "\<not> xs ! i \<le> xs ! j"
    then have lt: "xs ! j < xs ! i" by simp
    have ij: "i < ?n" "j < ?n" using that(1,2) set_idx by auto
    then have "xs ! j \<in> set xs" "xs ! i \<in> set xs" by simp_all
    from rank_strict [OF this lt] ij have "?ranks ! j < ?ranks ! i"
      by (simp add: rankdata_def)
    with that(3) show False by simp
  qed
  have "sorted_wrt (\<lambda>i j. ?ranks ! i \<le> ?ranks ! j) ?idx"
    using srt by (simp add: sorted_map)
  then have "sorted_wrt (\<lambda>i j. xs ! i \<le> xs ! j) ?idx"
    by (rule sorted_wrt_mono_rel [rotated]) (use mono in blast)
  then have s: "sorted (map ((!) xs) ?idx)"
    by (simp add: sorted_map)
  have "mset ?idx = mset [0..<?n]"
    by (simp add: argsort_def len)
  then have "mset (map ((!) xs) ?idx) = mset (map ((!) xs) [0..<?n])"
    by (metis mset_map)
  then have m: "mset (map ((!) xs) ?idx) = mset xs"
    by (simp add: map_nth)
  from properties_for_sort [OF m s] show ?thesis by simp
qed

text \<open>
  C9. The interval of a timepoint reads the bootstrap means, in ascending order, at
  the positions \<open>ceil(0.025 n_perm)\<close> and \<open>ceil(0.975 n_perm)\<close>, counted from 0, and
  nowhere else. The upper position is an index of the \<open>n_perm\<close> means exactly when
  \<open>n_perm\<close> is at least 40, and the lower position is never above it: from 40 on both
  reads succeed, below 40 the extraction raises an IndexError.
\<close>

theorem ci_accuracy_in_bounds_iff:
  assumes "length tp_data = n_perm"
  shows "(ci_upper n_perm < n_perm \<longleftrightarrow> 40 \<le> n_perm)
     \<and> ci_lower n_perm \<le> ci_upper n_perm
     \<and> (40 \<le> n_perm \<longrightarrow>
          ci_accuracy n_perm tp_data
            = Inr [sort tp_data ! ci_lower n_perm, sort tp_data ! ci_upper n_perm])
     \<and> (n_perm < 40 \<longrightarrow> ci_accuracy n_perm tp_data = Inl IndexError)"
proof -
  have asc: "map (\<lambda>row. map ((!) row) (argsort (rankdata tp_data))) [rankdata tp_data, tp_data] ! 1
      = sort tp_data"
    by (simp add: argsort_rankdata)
  have len: "length (sort tp_data) = n_perm"
    using assms by simp
  have run: "ci_accuracy n_perm tp_data =
      (case get (sort tp_data) (ci_lower n_perm) of
         Inl e \<Rightarrow> Inl e
       | Inr lower_CI \<Rightarrow>
           (case get (sort tp_data) (ci_upper n_perm) of
              Inl e \<Rightarrow> Inl e
            | Inr upper_CI \<Rightarrow> Inr [lower_CI, upper_CI]))"
    unfolding ci_accuracy_def Let_def asc ..
  have ok: "ci_accuracy n_perm tp_data
      = Inr [sort tp_data ! ci_lower n_perm, sort tp_data ! ci_upper n_perm]" if "40 \<le> n_perm"
  proof -
    have "ci_upper n_perm < n_perm" using that by (simp add: ci_upper_lt_iff)
    moreover from this have "ci_lower n_perm < n_perm"
      using ci_lower_le_upper [of n_perm] by simp
    ultimately show ?thesis
      unfolding run by (simp add: get_def assms)
  qed
  have bad: "ci_accuracy n_perm tp_data = Inl IndexError" if "n_perm < 40"
  proof -
    have "\<not> ci_upper n_perm < n_perm" using that by (simp add: ci_upper_lt_iff)
    then show ?thesis
      unfolding run by (simp add: get_def assms)
  qed
  from ok bad show ?thesis
    by (simp add: ci_upper_lt_iff ci_lower_le_upper)
qed

text \<open>
  The witness: forty equal means give the interval \<open>[0.1, 0.1]\<close>, read at the positions
  1 and 39; with 39 means the upper position is 39, past the end.
\<close>

theorem ci_accuracy_in_bounds_iff_witness:
  "length (replicate 40 (1 / 10 :: real)) = 40
   \<and> ci_lower 40 = 1 \<and> ci_upper 40 = 39
   \<and> ci_accuracy 40 (replicate 40 (1 / 10)) = Inr [1 / 10, 1 / 10]
   \<and> length (replicate 39 (1 / 10 :: real)) = 39
   \<and> ci_upper 39 = 39
   \<and> ci_accuracy 39 (replicate 39 (1 / 10)) = Inl IndexError"
proof -
  have idx: "ci_lower 40 = 1" "ci_upper 40 = 39" "ci_upper 39 = 39"
    by (simp_all add: ci_lower_def ci_upper_def)
  have "sort (replicate 40 (1 / 10 :: real)) ! k \<in> set (sort (replicate 40 (1 / 10 :: real)))"
    if "k < 40" for k
    using that by (intro nth_mem) simp
  then have v: "sort (replicate 40 (1 / 10 :: real)) ! k = 1 / 10" if "k < 40" for k
    using that by fastforce
  from ci_accuracy_in_bounds_iff [of "replicate 40 (1 / 10)" 40]
    ci_accuracy_in_bounds_iff [of "replicate 39 (1 / 10)" 39] idx v [of 1] v [of 39]
  show ?thesis by simp
qed

section \<open>Paired resampling of two features\<close>

lemma state_after_Suc:
  "state_after choice a n g (Suc p) = state_after choice a n (snd (choice g a n)) p"
  unfolding state_after_def funpow_Suc_right by simp

lemma draw_idx_0: "draw_idx choice a n g 0 = fst (choice g a n)"
  by (simp add: draw_idx_def state_after_def)

lemma draw_idx_Suc: "draw_idx choice a n g (Suc p) = draw_idx choice a n (snd (choice g a n)) p"
  by (simp add: draw_idx_def state_after_Suc)

lemma peak_diff_loop_draws:
  assumes "peak_diff_loop choice n_sub timepoints A B n_perm g = Inr (ds, g')"
  shows "length ds = n_perm \<and> g' = state_after choice (length A) n_sub g n_perm
     \<and> (\<forall>p<n_perm. peak_diff_draw timepoints A B (draw_idx choice (length A) n_sub g p)
            = Inr (ds ! p))"
  using assms
proof (induction n_perm arbitrary: g ds)
  case 0
  then show ?case by (simp add: state_after_def)
next
  case (Suc k)
  obtain idx g1 where ch: "choice g (length A) n_sub = (idx, g1)"
    by (cases "choice g (length A) n_sub")
  from Suc.prems ch obtain d ds' where d: "peak_diff_draw timepoints A B idx = Inr d"
    and rest: "peak_diff_loop choice n_sub timepoints A B k g1 = Inr (ds', g')"
    and ds: "ds = d # ds'"
    by (auto split: sum.splits prod.splits)
  note IH = Suc.IH [OF rest]
  have "peak_diff_draw timepoints A B (draw_idx choice (length A) n_sub g p) = Inr (ds ! p)"
    if "p < Suc k" for p
  proof (cases p)
    case 0
    then show ?thesis using d ds ch by (simp add: draw_idx_0)
  next
    case (Suc q)
    then show ?thesis using IH that ds ch by (simp add: draw_idx_Suc)
  qed
  then show ?case
    using IH ds ch by (simp add: state_after_Suc)
qed

text \<open>
  C8. In the bootstrap of the difference of two peak latencies, a run of \<open>n_perm\<close> draws
  calls the generator \<open>n_perm\<close> times, once per draw, and draw \<open>perm\<close> resamples both
  features with the indices of that one call: the rows of \<open>A\<close> and the rows of \<open>B\<close> at
  the same indices. Each feature's peak is the timestamp at the \<open>argmax\<close> of the mean
  of its own resample, and the entry of the draw is the difference of the two peaks.
\<close>

theorem peak_diff_paired_resampling:
  assumes "peak_diff_loop choice n_sub timepoints A B n_perm g = Inr (bt_data_peaks, g')"
  shows "length bt_data_peaks = n_perm
     \<and> g' = state_after choice (length A) n_sub g n_perm
     \<and> (\<forall>perm<n_perm.
          \<exists>A' B' peak_A peak_B.
            take_rows timepoints A (draw_idx choice (length A) n_sub g perm) = Inr A'
            \<and> take_rows timepoints B (draw_idx choice (length A) n_sub g perm) = Inr B'
            \<and> peak_ms (mean_rows timepoints A') = Inr peak_A
            \<and> peak_ms (mean_rows timepoints B') = Inr peak_B
            \<and> bt_data_peaks ! perm = peak_A - peak_B)"
proof -
  note l = peak_diff_loop_draws [OF assms]
  have "\<exists>A' B' peak_A peak_B.
            take_rows timepoints A (draw_idx choice (length A) n_sub g perm) = Inr A'
            \<and> take_rows timepoints B (draw_idx choice (length A) n_sub g perm) = Inr B'
            \<and> peak_ms (mean_rows timepoints A') = Inr peak_A
            \<and> peak_ms (mean_rows timepoints B') = Inr peak_B
            \<and> bt_data_peaks ! perm = peak_A - peak_B" if "perm < n_perm" for perm
  proof -
    have "peak_diff_draw timepoints A B (draw_idx choice (length A) n_sub g perm)
        = Inr (bt_data_peaks ! perm)"
      using l that by simp
    then show ?thesis
      by (auto simp: peak_diff_draw_def Let_def split: sum.splits)
  qed
  with l show ?thesis by blast
qed

text \<open>
  The witness: two subjects, two timepoints, two draws. The first draw takes subject 0
  twice for both features (peaks at \<open>-400\<close> and \<open>-380\<close>), the second subject 1 twice
  (both peaks at \<open>-380\<close>).
\<close>

theorem peak_diff_paired_resampling_witness:
  "peak_diff_loop choice_cycle 2 2 [[1, 0], [0, 1]] [[0, 1], [0, 1]] 2 0 = Inr ([- 20, 0], 2)
   \<and> draw_idx choice_cycle 2 2 0 0 = [0, 0]
   \<and> draw_idx choice_cycle 2 2 0 1 = [1, 1]
   \<and> state_after choice_cycle 2 2 0 2 = 2"
proof -
  have run: "peak_diff_loop choice_cycle 2 2 [[1, 0], [0, 1]] [[0, 1], [0, 1]] 2 0
      = Inr ([- 20, 0], 2)"
    by (simp add: numeral_2_eq_2 choice_cycle_def peak_diff_draw_def take_rows_def get_def
        rect_def mean_rows_def col_def peak_ms_def argmax_def time_ms_def upt_2 Let_def)
  have "draw_idx choice_cycle 2 2 0 0 = [0, 0]" "draw_idx choice_cycle 2 2 0 1 = [1, 1]"
    "state_after choice_cycle 2 2 0 2 = 2"
    by (simp_all add: draw_idx_def state_after_def choice_cycle_def numeral_2_eq_2)
  with peak_diff_paired_resampling [OF run] run show ?thesis by simp
qed

end
